theory Spec2Isabelle
  imports Main "HOL-Library.AList"
begin

section \<open>Python values, dictionaries and exceptions\<close>

text \<open>
  The drivers pass load-balancer objects around as Python dictionaries with string keys.
  A dictionary is an association list read with \<open>map_of\<close>; a dictionary literal
  and an item assignment write through \<open>AList.update\<close>, so that a later entry for
  a key replaces an earlier one as in Python.
\<close>

datatype pyval =
    PyNone
  | PyBool bool
  | PyInt int
  | PyStr string
  | PyList "pyval list"
  | PyDict "(string \<times> pyval) list"

type_synonym pydict = "(string \<times> pyval) list"

datatype pyexc =
    VcnsApiException string
  | VcnsNotFound string
  | KeyError string
  | IndexError
  | TypeError
  | UnboundLocalError
  | LookupError
  | ImportError
  | ServiceUnavailable
  | PortNotFound string
  | SubnetNotFound string
  | NetworkNotFound string
  | NoEligibleLbaasAgent pyval
  | NoActiveLbaasAgent pyval
  | OtherError string

text \<open>\<open>d.get(k)\<close>: the value, or \<open>None\<close> for a missing key.\<close>

definition py_get :: "pydict \<Rightarrow> string \<Rightarrow> pyval" where
  "py_get d k = (case map_of d k of None \<Rightarrow> PyNone | Some v \<Rightarrow> v)"

text \<open>\<open>d[k]\<close>: the value, or \<open>KeyError\<close> for a missing key.\<close>

definition py_item :: "pydict \<Rightarrow> string \<Rightarrow> pyexc + pyval" where
  "py_item d k = (case map_of d k of None \<Rightarrow> Inl (KeyError k) | Some v \<Rightarrow> Inr v)"

text \<open>A dictionary literal \<open>{k1: v1, k2: v2, ...}\<close>, entries written left to right.\<close>

definition dict_literal :: "(string \<times> pyval) list \<Rightarrow> pydict" where
  "dict_literal kvs = foldl (\<lambda>d (k, v). AList.update k v d) [] kvs"

text \<open>Python truthiness, as \<open>if x\<close> and \<open>not x\<close> read a value.\<close>

fun truthy :: "pyval \<Rightarrow> bool" where
  "truthy PyNone = False"
| "truthy (PyBool b) = b"
| "truthy (PyInt i) = (i \<noteq> 0)"
| "truthy (PyStr s) = (s \<noteq> [])"
| "truthy (PyList xs) = (xs \<noteq> [])"
| "truthy (PyDict d) = (d \<noteq> [])"

text \<open>
  Sequencing with exceptions: \<open>pybind m f\<close> runs \<open>f\<close> on the value of
  \<open>m\<close> unless \<open>m\<close> raised; \<open>then_do\<close> is the same over a state that
  each step may change and that an exception leaves as it was when raised;
  \<open>pure_exc\<close> is a step that does not touch the state.
\<close>

definition pybind :: "pyexc + 'a \<Rightarrow> ('a \<Rightarrow> pyexc + 'b) \<Rightarrow> pyexc + 'b" where
  "pybind m f = (case m of Inl e \<Rightarrow> Inl e | Inr x \<Rightarrow> f x)"

definition then_do ::
    "('s \<Rightarrow> (pyexc + 'a) \<times> 's) \<Rightarrow> ('a \<Rightarrow> 's \<Rightarrow> (pyexc + 'b) \<times> 's) \<Rightarrow> 's \<Rightarrow> (pyexc + 'b) \<times> 's" where
  "then_do m f s = (case m s of (Inl e, s') \<Rightarrow> (Inl e, s') | (Inr x, s') \<Rightarrow> f x s')"

definition pure_exc :: "pyexc + 'a \<Rightarrow> 's \<Rightarrow> (pyexc + 'a) \<times> 's" where
  "pure_exc r s = (r, s)"

section \<open>String operations used by the edge driver\<close>

text \<open>
  \<open>s.rfind(c)\<close> for a one-character pattern: the highest index at which \<open>c\<close>
  stands in \<open>s\<close>, or \<open>-1\<close> when it does not occur.
\<close>

fun rfind :: "string \<Rightarrow> char \<Rightarrow> int" where
  "rfind [] c = - 1"
| "rfind (x # xs) c =
     (let r = rfind xs c in if 0 \<le> r then r + 1 else if x = c then 0 else - 1)"

text \<open>The slice \<open>s[k:]\<close>; a negative start counts from the end and is clipped at 0.\<close>

definition slice_from :: "string \<Rightarrow> int \<Rightarrow> string" where
  "slice_from s k = (if 0 \<le> k then drop (nat k) s else drop (nat (int (length s) + k)) s)"

text \<open>
  The expression \<open>objuri[objuri.rfind("/") + 1:]\<close>, which \<open>create_vip\<close>,
  \<open>create_pool\<close> and \<open>create_health_monitor\<close> each apply to the
  \<open>location\<close> header of a create response.
\<close>

definition location_id :: "string \<Rightarrow> string" where
  "location_id objuri = slice_from objuri (rfind objuri CHR ''/'' + 1)"

section \<open>The binding store of the edge driver\<close>

text \<open>
  The driver keeps one binding row per logical object: the logical id, the id the backend
  gave the object (\<open>vseid\<close>), the edge it lives on and, for a vip, the id of its
  application profile. The rows are read by attribute name, as the source reads
  \<open>vip_binding['vip_vseid']\<close>.
\<close>

record vip_binding =
  vip_id :: pyval
  vip_vseid :: string
  vip_edge_id :: string
  app_profileid :: string

record pool_binding =
  pool_id :: pyval
  pool_vseid :: string
  pool_edge_id :: string

record monitor_binding =
  monitor_id :: pyval
  monitor_vseid :: string
  monitor_edge_id :: string

record vcns_db =
  vip_bindings :: "vip_binding list"
  pool_bindings :: "pool_binding list"
  monitor_bindings :: "monitor_binding list"

text \<open>
  Modelled from the spec: the module \<open>vcns_db\<close> is not among the sources. The
  spec's BindingStore has \<open>put\<close>, \<open>get\<close>, \<open>getByBackendId\<close> and
  \<open>delete\<close>; \<open>get\<close> by logical id and \<open>getByBackendId\<close> answer
  \<open>Binding | NotFound\<close>. For the pool and monitor tables the callers under
  \<open>src/\<close> test the answer with \<open>if not pool_binding\<close>, so there a miss is
  the value \<open>None\<close>; for the vip table and for the reverse lookup no caller tests
  the answer, and a miss is the store's \<open>NotFound\<close> error.
\<close>

definition add_vcns_edge_vip_binding :: "vcns_db \<Rightarrow> vip_binding \<Rightarrow> vcns_db" where
  "add_vcns_edge_vip_binding d map_info = d\<lparr>vip_bindings := vip_bindings d @ [map_info]\<rparr>"

text \<open>Modelled from the spec: \<open>vcns_db.get_vcns_edge_vip_binding\<close>, the store's \<open>get\<close> for a vip; a miss raises its \<open>NotFound\<close>.\<close>

definition get_vcns_edge_vip_binding :: "vcns_db \<Rightarrow> pyval \<Rightarrow> pyexc + vip_binding" where
  "get_vcns_edge_vip_binding d i =
     (case find (\<lambda>b. vip_id b = i) (vip_bindings d) of
        None \<Rightarrow> Inl (VcnsNotFound ''router_service_binding'')
      | Some b \<Rightarrow> Inr b)"

text \<open>Modelled from the spec: \<open>vcns_db.delete_vcns_edge_vip_binding\<close>, the store's \<open>delete\<close> for a vip.\<close>

definition delete_vcns_edge_vip_binding :: "vcns_db \<Rightarrow> pyval \<Rightarrow> vcns_db" where
  "delete_vcns_edge_vip_binding d i =
     d\<lparr>vip_bindings := filter (\<lambda>b. vip_id b \<noteq> i) (vip_bindings d)\<rparr>"

text \<open>Modelled from the spec: \<open>vcns_db.add_vcns_edge_pool_binding\<close>, the store's \<open>put\<close> for a pool.\<close>

definition add_vcns_edge_pool_binding :: "vcns_db \<Rightarrow> pool_binding \<Rightarrow> vcns_db" where
  "add_vcns_edge_pool_binding d map_info = d\<lparr>pool_bindings := pool_bindings d @ [map_info]\<rparr>"

text \<open>Modelled from the spec: \<open>vcns_db.get_vcns_edge_pool_binding\<close>, the store's \<open>get\<close> for a pool on an edge; a miss is \<open>None\<close>, which the callers test.\<close>

definition get_vcns_edge_pool_binding :: "vcns_db \<Rightarrow> pyval \<Rightarrow> string \<Rightarrow> pool_binding option" where
  "get_vcns_edge_pool_binding d i edge_id =
     find (\<lambda>b. pool_id b = i \<and> pool_edge_id b = edge_id) (pool_bindings d)"

text \<open>Modelled from the spec: \<open>vcns_db.get_vcns_edge_pool_binding_by_vseid\<close>, the store's \<open>getByBackendId\<close> for a pool; a miss raises its \<open>NotFound\<close>.\<close>

definition get_vcns_edge_pool_binding_by_vseid ::
    "vcns_db \<Rightarrow> string \<Rightarrow> pyval \<Rightarrow> pyexc + pool_binding" where
  "get_vcns_edge_pool_binding_by_vseid d edge_id vseid =
     (case find (\<lambda>b. pool_edge_id b = edge_id \<and> PyStr (pool_vseid b) = vseid) (pool_bindings d) of
        None \<Rightarrow> Inl (VcnsNotFound ''router_service_binding'')
      | Some b \<Rightarrow> Inr b)"

text \<open>Modelled from the spec: \<open>vcns_db.add_vcns_edge_monitor_binding\<close>, the store's \<open>put\<close> for a monitor.\<close>

definition add_vcns_edge_monitor_binding :: "vcns_db \<Rightarrow> monitor_binding \<Rightarrow> vcns_db" where
  "add_vcns_edge_monitor_binding d map_info =
     d\<lparr>monitor_bindings := monitor_bindings d @ [map_info]\<rparr>"

text \<open>Modelled from the spec: \<open>vcns_db.get_vcns_edge_monitor_binding\<close>, the store's \<open>get\<close> for a monitor on an edge; a miss is \<open>None\<close>, which the callers test.\<close>

definition get_vcns_edge_monitor_binding ::
    "vcns_db \<Rightarrow> pyval \<Rightarrow> string \<Rightarrow> monitor_binding option" where
  "get_vcns_edge_monitor_binding d i edge_id =
     find (\<lambda>b. monitor_id b = i \<and> monitor_edge_id b = edge_id) (monitor_bindings d)"

section \<open>The edge backend\<close>

text \<open>
  The calls the driver makes on \<open>self.vcns\<close>, each with the edge it addresses. A
  create call answers with a header dictionary (whose \<open>location\<close> names the new
  object) and a body; any call can raise instead.
\<close>

datatype vcns_call =
    CreateAppProfile string pydict
  | DeleteAppProfile string string
  | CreateVip string pydict
  | GetVip string string
  | DeleteVip string string
  | CreatePool string pydict
  | GetPool string string
  | CreateHealthMonitor string pydict
  | GetHealthMonitor string string

type_synonym vcns_response = "(string \<times> string) list \<times> pyval"

text \<open>
  The backend is a parameter: what it answers to a call may depend on every call made
  before. The driver state is the binding store and the calls issued so far.
\<close>

type_synonym vcns_api = "vcns_call list \<Rightarrow> vcns_call \<Rightarrow> pyexc + vcns_response"

record edge_state =
  db :: vcns_db
  calls :: "vcns_call list"

definition invoke :: "vcns_api \<Rightarrow> vcns_call \<Rightarrow> edge_state \<Rightarrow> (pyexc + vcns_response) \<times> edge_state" where
  "invoke vcns c s = (vcns (calls s) c, s\<lparr>calls := calls s @ [c]\<rparr>)"

section \<open>Conversions of the edge driver\<close>

text \<open>
  The values of \<open>lb_constants\<close> (a module outside the sources) are parameters of
  the two lookup tables.
\<close>

record lb_constants =
  LB_METHOD_ROUND_ROBIN :: string
  LB_METHOD_LEAST_CONNECTIONS :: string
  LB_METHOD_SOURCE_IP :: string
  PROTOCOL_TCP :: string
  PROTOCOL_HTTP :: string
  PROTOCOL_HTTPS :: string

definition BALANCE_MAP :: "lb_constants \<Rightarrow> pydict" where
  "BALANCE_MAP c = dict_literal
     [(LB_METHOD_ROUND_ROBIN c, PyStr ''round-robin''),
      (LB_METHOD_LEAST_CONNECTIONS c, PyStr ''leastconn''),
      (LB_METHOD_SOURCE_IP c, PyStr ''source'')]"

definition PROTOCOL_MAP :: "lb_constants \<Rightarrow> pydict" where
  "PROTOCOL_MAP c = dict_literal
     [(PROTOCOL_TCP c, PyStr ''tcp''),
      (PROTOCOL_HTTP c, PyStr ''http''),
      (PROTOCOL_HTTPS c, PyStr ''tcp'')]"

text \<open>
  \<open>d.get(key, default)\<close> for a key that is any value: a list or a dictionary cannot
  be hashed and raises; any other key that is not a string is simply absent.
\<close>

definition dict_get :: "pydict \<Rightarrow> pyval \<Rightarrow> pyval \<Rightarrow> pyexc + pyval" where
  "dict_get d key dflt =
     (case key of
        PyStr k \<Rightarrow> Inr (case map_of d k of None \<Rightarrow> dflt | Some v \<Rightarrow> v)
      | PyList _ \<Rightarrow> Inl TypeError
      | PyDict _ \<Rightarrow> Inl TypeError
      | _ \<Rightarrow> Inr dflt)"

text \<open>\<open>x[k]\<close> for a string key on any value: only a dictionary can answer.\<close>

definition py_subscript :: "pyval \<Rightarrow> string \<Rightarrow> pyexc + pyval" where
  "py_subscript x k = (case x of PyDict d \<Rightarrow> py_item d k | _ \<Rightarrow> Inl TypeError)"

text \<open>\<open>x[0]\<close> on a value already known to be truthy.\<close>

definition py_first :: "pyval \<Rightarrow> pyexc + pyval" where
  "py_first x =
     (case x of
        PyList (y # _) \<Rightarrow> Inr y
      | PyList [] \<Rightarrow> Inl IndexError
      | PyStr (ch # _) \<Rightarrow> Inr (PyStr [ch])
      | PyStr [] \<Rightarrow> Inl IndexError
      | PyDict _ \<Rightarrow> Inl (KeyError ''0'')
      | _ \<Rightarrow> Inl TypeError)"

definition convert_lb_vip :: "vcns_db \<Rightarrow> string \<Rightarrow> pydict \<Rightarrow> string \<Rightarrow> pyexc + pydict" where
  "convert_lb_vip d edge_id vip app_profile =
     (let p = py_get vip ''pool_id'' in
      case get_vcns_edge_pool_binding d p edge_id of
        None \<Rightarrow> Inl TypeError
      | Some poolid_map \<Rightarrow>
          Inr (dict_literal
            [(''name'', py_get vip ''name''),
             (''ipAddress'', py_get vip ''address''),
             (''protocol'', py_get vip ''protocol''),
             (''port'', py_get vip ''protocol_port''),
             (''defaultPoolId'', PyStr (pool_vseid poolid_map)),
             (''applicationProfileId'', PyStr app_profile)]))"

definition restore_lb_vip :: "vcns_db \<Rightarrow> string \<Rightarrow> pyval \<Rightarrow> pyexc + pydict" where
  "restore_lb_vip d edge_id vip_vse =
     pybind (py_subscript vip_vse ''defaultPoolId'') (\<lambda>dp.
     pybind (get_vcns_edge_pool_binding_by_vseid d edge_id dp) (\<lambda>pb.
     pybind (py_subscript vip_vse ''name'') (\<lambda>n.
     pybind (py_subscript vip_vse ''ipAddress'') (\<lambda>a.
     pybind (py_subscript vip_vse ''protocol'') (\<lambda>pr.
     pybind (py_subscript vip_vse ''port'') (\<lambda>po.
       Inr (dict_literal
         [(''name'', n),
          (''address'', a),
          (''protocol'', pr),
          (''protocol_port'', po),
          (''pool_id'', pool_id pb)])))))))"

text \<open>The loop of \<open>_convert_lb_pool\<close> over the members, appending one entry each.\<close>

fun convert_members :: "pydict list \<Rightarrow> pyval list \<Rightarrow> pyexc + pyval list" where
  "convert_members [] acc = Inr acc"
| "convert_members (member # members) acc =
     pybind (py_item member ''address'') (\<lambda>a.
     pybind (py_item member ''protocol_port'') (\<lambda>p.
       convert_members members (acc @ [PyDict (dict_literal [(''ipAddress'', a), (''port'', p)])])))"

definition convert_lb_pool ::
    "lb_constants \<Rightarrow> vcns_db \<Rightarrow> string \<Rightarrow> pydict \<Rightarrow> pydict list \<Rightarrow> pyexc + pydict" where
  "convert_lb_pool c d edge_id pool members =
     pybind (dict_get (BALANCE_MAP c) (py_get pool ''lb_method'') (PyStr ''round-robin'')) (\<lambda>alg.
     pybind (convert_members members []) (\<lambda>ms.
       let vsepool = dict_literal
             [(''name'', py_get pool ''name''),
              (''algorithm'', alg),
              (''member'', PyList ms),
              (''monitorId'', PyList [])];
           monitors = py_get pool ''health_monitors''
       in if \<not> truthy monitors then Inr vsepool
          else pybind (py_first monitors) (\<lambda>m.
                 case get_vcns_edge_monitor_binding d m edge_id of
                   None \<Rightarrow> Inl TypeError
                 | Some monitorid_map \<Rightarrow>
                     Inr (AList.update ''monitorId''
                            (PyList [PyStr (monitor_vseid monitorid_map)]) vsepool))))"

definition restore_lb_pool :: "pyval \<Rightarrow> pyexc + pydict" where
  "restore_lb_pool pool_vse =
     pybind (py_subscript pool_vse ''name'') (\<lambda>n. Inr (dict_literal [(''name'', n)]))"

definition convert_lb_monitor :: "lb_constants \<Rightarrow> pydict \<Rightarrow> pyexc + pydict" where
  "convert_lb_monitor c monitor =
     pybind (dict_get (PROTOCOL_MAP c) (py_get monitor ''type'') (PyStr ''http'')) (\<lambda>t.
       Inr (dict_literal
         [(''type'', t),
          (''interval'', py_get monitor ''delay''),
          (''timeout'', py_get monitor ''timeout''),
          (''maxRetries'', py_get monitor ''max_retries''),
          (''name'', py_get monitor ''id'')]))"

definition restore_lb_monitor :: "pyval \<Rightarrow> pyexc + pydict" where
  "restore_lb_monitor monitor_vse =
     pybind (py_subscript monitor_vse ''interval'') (\<lambda>i.
     pybind (py_subscript monitor_vse ''timeout'') (\<lambda>t.
     pybind (py_subscript monitor_vse ''maxRetries'') (\<lambda>m.
     pybind (py_subscript monitor_vse ''name'') (\<lambda>n.
       Inr (dict_literal
         [(''delay'', i), (''timeout'', t), (''max_retries'', m), (''id'', n)])))))"

definition convert_app_profile :: "pyval \<Rightarrow> pyval \<Rightarrow> pydict" where
  "convert_app_profile name app_profile =
     dict_literal
       [(''insertXForwardedFor'', PyBool False),
        (''name'', name),
        (''persistence'', PyDict (dict_literal [(''method'', PyStr ''sourceip'')])),
        (''serverSslEnabled'', PyBool False),
        (''sslPassthrough'', PyBool False),
        (''template'', PyStr ''HTTP'')]"

section \<open>Operations of the edge driver\<close>

text \<open>
  Each operation follows its source line by line. A backend call that raises is logged
  and raised again unchanged (\<open>save_and_reraise_exception\<close>), so the exception of
  \<open>invoke\<close> is the exception of the operation; an exception that the source does
  not catch leaves it in the same way.
\<close>

definition header_item :: "(string \<times> string) list \<Rightarrow> string \<Rightarrow> pyexc + string" where
  "header_item header k = (case map_of header k of None \<Rightarrow> Inl (KeyError k) | Some v \<Rightarrow> Inr v)"

definition create_vip ::
    "vcns_api \<Rightarrow> string \<Rightarrow> pydict \<Rightarrow> edge_state \<Rightarrow> (pyexc + unit) \<times> edge_state" where
  "create_vip vcns edge_id vip =
     then_do (pure_exc (py_item vip ''name'')) (\<lambda>name.
     let app_profile = convert_app_profile name (py_get vip ''session_persistence'') in
     then_do (invoke vcns (CreateAppProfile edge_id app_profile)) (\<lambda>(header, response).
     then_do (pure_exc (header_item header ''location'')) (\<lambda>objuri.
     let app_profile_ref = location_id objuri in
     then_do (\<lambda>s. (convert_lb_vip (db s) edge_id vip app_profile_ref, s)) (\<lambda>vip_new.
     then_do (invoke vcns (CreateVip edge_id vip_new)) (\<lambda>(header, response).
     then_do (pure_exc (header_item header ''location'')) (\<lambda>objuri.
     let vseid = location_id objuri in
     then_do (pure_exc (py_item vip ''id'')) (\<lambda>i s.
       (Inr (), s\<lparr>db := add_vcns_edge_vip_binding (db s)
          \<lparr>vip_id = i, vip_vseid = vseid, vip_edge_id = edge_id,
           app_profileid = app_profile_ref\<rparr>\<rparr>))))))))"

definition get_vip :: "vcns_api \<Rightarrow> pyval \<Rightarrow> edge_state \<Rightarrow> (pyexc + pydict) \<times> edge_state" where
  "get_vip vcns i =
     then_do (\<lambda>s. (get_vcns_edge_vip_binding (db s) i, s)) (\<lambda>binding.
     let edge_id = vip_edge_id binding; vseid = vip_vseid binding in
     then_do (invoke vcns (GetVip edge_id vseid)) (\<lambda>(header, response) s.
       (restore_lb_vip (db s) edge_id response, s)))"

definition delete_vip :: "vcns_api \<Rightarrow> pyval \<Rightarrow> edge_state \<Rightarrow> (pyexc + unit) \<times> edge_state" where
  "delete_vip vcns i =
     then_do (\<lambda>s. (get_vcns_edge_vip_binding (db s) i, s)) (\<lambda>binding.
     let edge_id = vip_edge_id binding;
         vseid = vip_vseid binding;
         app_profile_ref = app_profileid binding in
     then_do (invoke vcns (DeleteVip edge_id vseid)) (\<lambda>_.
     then_do (invoke vcns (DeleteAppProfile edge_id app_profile_ref)) (\<lambda>_ s.
       (Inr (), s\<lparr>db := delete_vcns_edge_vip_binding (db s) i\<rparr>))))"

definition create_pool ::
    "lb_constants \<Rightarrow> vcns_api \<Rightarrow> string \<Rightarrow> pydict \<Rightarrow> pydict list \<Rightarrow> edge_state
      \<Rightarrow> (pyexc + unit) \<times> edge_state" where
  "create_pool c vcns edge_id pool members =
     then_do (\<lambda>s. (convert_lb_pool c (db s) edge_id pool members, s)) (\<lambda>pool_new.
     then_do (invoke vcns (CreatePool edge_id pool_new)) (\<lambda>(header, response).
     then_do (pure_exc (header_item header ''location'')) (\<lambda>objuri.
     let vseid = location_id objuri in
     then_do (pure_exc (py_item pool ''id'')) (\<lambda>i s.
       (Inr (), s\<lparr>db := add_vcns_edge_pool_binding (db s)
          \<lparr>pool_id = i, pool_vseid = vseid, pool_edge_id = edge_id\<rparr>\<rparr>)))))"

definition get_pool ::
    "vcns_api \<Rightarrow> pyval \<Rightarrow> string \<Rightarrow> edge_state \<Rightarrow> (pyexc + pydict) \<times> edge_state" where
  "get_pool vcns i edge_id s =
     (case get_vcns_edge_pool_binding (db s) i edge_id of
        None \<Rightarrow> (Inl (VcnsNotFound ''router_service_binding''), s)
      | Some binding \<Rightarrow>
          then_do (invoke vcns (GetPool edge_id (pool_vseid binding)))
            (\<lambda>(header, response). pure_exc (restore_lb_pool response)) s)"

definition create_health_monitor ::
    "lb_constants \<Rightarrow> vcns_api \<Rightarrow> string \<Rightarrow> pydict \<Rightarrow> edge_state \<Rightarrow> (pyexc + unit) \<times> edge_state" where
  "create_health_monitor c vcns edge_id health_monitor =
     then_do (pure_exc (convert_lb_monitor c health_monitor)) (\<lambda>monitor_new.
     then_do (invoke vcns (CreateHealthMonitor edge_id monitor_new)) (\<lambda>(header, response).
     then_do (pure_exc (header_item header ''location'')) (\<lambda>objuri.
     let vseid = location_id objuri in
     then_do (pure_exc (py_item health_monitor ''id'')) (\<lambda>i s.
       (Inr (), s\<lparr>db := add_vcns_edge_monitor_binding (db s)
          \<lparr>monitor_id = i, monitor_vseid = vseid, monitor_edge_id = edge_id\<rparr>\<rparr>)))))"

definition get_health_monitor ::
    "vcns_api \<Rightarrow> pyval \<Rightarrow> string \<Rightarrow> edge_state \<Rightarrow> (pyexc + pydict) \<times> edge_state" where
  "get_health_monitor vcns i edge_id s =
     (case get_vcns_edge_monitor_binding (db s) i edge_id of
        None \<Rightarrow> (Inl (VcnsNotFound ''router_service_binding''), s)
      | Some binding \<Rightarrow>
          then_do (invoke vcns (GetHealthMonitor edge_id (monitor_vseid binding)))
            (\<lambda>(header, response). pure_exc (restore_lb_monitor response)) s)"

section \<open>Concrete inputs for the edge driver\<close>

text \<open>
  A store in which pool \<open>pool-1\<close> is bound to the backend pool \<open>P1\<close> on
  \<open>edge-1\<close>, a vip on that pool, and a backend that accepts every call except the
  deletion of an application profile. The theorems below are instantiated on them.
\<close>

definition sample_constants :: lb_constants where
  "sample_constants =
     \<lparr>LB_METHOD_ROUND_ROBIN = ''ROUND_ROBIN'',
      LB_METHOD_LEAST_CONNECTIONS = ''LEAST_CONNECTIONS'',
      LB_METHOD_SOURCE_IP = ''SOURCE_IP'',
      PROTOCOL_TCP = ''TCP'',
      PROTOCOL_HTTP = ''HTTP'',
      PROTOCOL_HTTPS = ''HTTPS''\<rparr>"

definition sample_db :: vcns_db where
  "sample_db =
     \<lparr>vip_bindings = [],
      pool_bindings = [\<lparr>pool_id = PyStr ''pool-1'', pool_vseid = ''P1'', pool_edge_id = ''edge-1''\<rparr>],
      monitor_bindings = []\<rparr>"

definition sample_vip :: pydict where
  "sample_vip =
     [(''id'', PyStr ''vip-1''),
      (''name'', PyStr ''web''),
      (''address'', PyStr ''10.0.0.5''),
      (''protocol'', PyStr ''HTTP''),
      (''protocol_port'', PyInt 80),
      (''pool_id'', PyStr ''pool-1'')]"

definition sample_vip_binding :: vip_binding where
  "sample_vip_binding =
     \<lparr>vip_id = PyStr ''vip-1'', vip_vseid = ''virtualServer-3'', vip_edge_id = ''edge-1'',
      app_profileid = ''applicationProfile-7''\<rparr>"

definition sample_vcns :: vcns_api where
  "sample_vcns history c =
     (case c of
        CreateAppProfile e p \<Rightarrow>
          Inr ([(''location'', ''/api/4.0/edges/edge-1/appprofiles/applicationProfile-7'')], PyNone)
      | CreateVip e p \<Rightarrow>
          Inr ([(''location'', ''/api/4.0/edges/edge-1/vips/virtualServer-3'')], PyNone)
      | CreatePool e p \<Rightarrow>
          Inr ([(''location'', ''/api/4.0/edges/edge-1/pools/pool-2'')], PyNone)
      | DeleteAppProfile e x \<Rightarrow> Inl (VcnsApiException ''profile is in use'')
      | _ \<Rightarrow> Inr ([], PyNone))"

text \<open>
  A backend that refuses the creation of an application profile (\<open>at_profile\<close>) or,
  having accepted the profile, the creation of the vip.
\<close>

definition refusing_vcns :: "bool \<Rightarrow> vcns_api" where
  "refusing_vcns at_profile history c =
     (case c of
        CreateAppProfile e p \<Rightarrow>
          (if at_profile then Inl (VcnsApiException ''profile refused'')
           else Inr ([(''location'', ''/api/4.0/edges/edge-1/appprofiles/applicationProfile-7'')],
                     PyNone))
      | CreateVip e p \<Rightarrow> Inl (VcnsApiException ''vip refused'')
      | _ \<Rightarrow> Inr ([], PyNone))"

section \<open>The REST client\<close>

text \<open>
  The client's fields that its operations read. The HTTP connection and the XML
  serializer are collaborators outside the sources: they are parameters, and each of
  their calls may raise.
\<close>

record rest_client =
  protocol :: string
  service_path :: string
  auth :: pyval
  client_headers :: pydict
  is_proxy :: bool

record http_request =
  req_method :: string
  req_path :: string
  req_body :: string
  req_headers :: pydict

record http_response =
  resp_status :: int
  resp_body :: string
  resp_headers :: "(string \<times> string) list"

record http_env =
  conn_request :: "http_request \<Rightarrow> pyexc option"
  conn_getresponse :: "http_request \<Rightarrow> pyexc + http_response"
  serialize :: "string \<Rightarrow> pyval \<Rightarrow> pyexc + string"
  deserialize :: "string \<Rightarrow> pyexc + pyval"

record response_dict =
  rd_status :: int
  rd_body :: string
  rd_headers :: "(string \<times> string) list"
  rd_dict :: "pyval option"

text \<open>\<open>_get_connection\<close>: only the two protocols the constructor sets are served.\<close>

definition get_connection :: "rest_client \<Rightarrow> pyexc + unit" where
  "get_connection cl =
     (if protocol cl = ''http'' then Inr ()
      else if protocol cl = ''https'' then Inr ()
      else Inl ServiceUnavailable)"

definition is_valid_response :: "int \<Rightarrow> bool" where
  "is_valid_response response_status = (if response_status < 400 then True else False)"

definition get_response_dict :: "http_env \<Rightarrow> http_response \<Rightarrow> bool \<Rightarrow> pyexc + response_dict" where
  "get_response_dict env response has_serializer =
     (let rd = \<lparr>rd_status = resp_status response, rd_body = resp_body response,
                rd_headers = resp_headers response, rd_dict = None\<rparr>
      in if is_valid_response (resp_status response) then
           (if length (resp_body response) > 0 then
              (if has_serializer then
                 pybind (deserialize env (resp_body response)) (\<lambda>parsed_body.
                   Inr (rd\<lparr>rd_dict := Some parsed_body\<rparr>))
               else Inr (rd\<lparr>rd_dict := Some (PyStr (resp_body response))\<rparr>))
            else Inr rd)
         else Inr rd)"

text \<open>The headers every operation sends: three fixed ones, then the client's own.\<close>

definition request_headers :: "rest_client \<Rightarrow> pydict" where
  "request_headers cl =
     (let headers = dict_literal
            [(''Content-Type'', PyStr ''application/xml''),
             (''Accept'', PyStr ''application/xml''),
             (''Authorization'', auth cl)]
      in if client_headers cl \<noteq> []
         then AList.updates (map fst (client_headers cl)) (map snd (client_headers cl)) headers
         else headers)"

text \<open>
  The request an operation puts on the connection: its method, the url path
  \<open>self.service_path + "/" + resource_path\<close>, the body and the headers.
\<close>

definition make_request :: "rest_client \<Rightarrow> string \<Rightarrow> string \<Rightarrow> string \<Rightarrow> http_request" where
  "make_request cl meth resource_path body =
     \<lparr>req_method = meth,
      req_path = service_path cl @ ''/'' @ resource_path,
      req_body = body,
      req_headers = request_headers cl\<rparr>"

text \<open>
  The connection takes the request \<open>req\<close> and answers \<open>response\<close>, from
  which \<open>_get_response_dict\<close> builds \<open>resp_dict\<close>.
\<close>

definition answers :: "http_env \<Rightarrow> http_request \<Rightarrow> bool \<Rightarrow> http_response \<Rightarrow> response_dict \<Rightarrow> bool" where
  "answers env req has_serializer response resp_dict =
     (conn_request env req = None \<and>
      conn_getresponse env req = Inr response \<and>
      get_response_dict env response has_serializer = Inr resp_dict)"

text \<open>
  The handler \<open>except (LookupError, ImportError)\<close>: a lookup error (of which key
  and index errors are kinds) or an import error becomes \<open>ServiceUnavailable\<close>;
  any other exception passes.
\<close>

definition caught :: "pyexc \<Rightarrow> bool" where
  "caught e =
     (case e of KeyError _ \<Rightarrow> True | IndexError \<Rightarrow> True | LookupError \<Rightarrow> True
      | ImportError \<Rightarrow> True | _ \<Rightarrow> False)"

definition guarded :: "pyexc + 'a \<Rightarrow> pyexc + 'a" where
  "guarded r =
     (case r of
        Inl e \<Rightarrow> (if caught e then Inl ServiceUnavailable else Inl e)
      | Inr x \<Rightarrow> Inr x)"

text \<open>
  The request body of \<open>create_resource\<close> and \<open>update_resource\<close>, with whether
  a serializer was made. \<open>initial\<close> is the body bound before the tests:
  \<open>create_resource\<close> starts from the empty string, \<open>update_resource\<close> binds
  nothing, and reading the unbound name raises.
\<close>

definition request_body ::
    "http_env \<Rightarrow> string option \<Rightarrow> string \<Rightarrow> pyval \<Rightarrow> pyexc + (string \<times> bool)" where
  "request_body env initial object_name object_data =
     (case object_data of
        PyStr text \<Rightarrow> Inr (text, False)
      | _ \<Rightarrow>
          (if truthy object_data then
             pybind (serialize env object_name object_data) (\<lambda>text. Inr (text, True))
           else (case initial of None \<Rightarrow> Inl UnboundLocalError | Some text \<Rightarrow> Inr (text, False))))"

text \<open>\<open>connection.request(...)\<close>: it returns nothing, or raises.\<close>

definition send_request :: "http_env \<Rightarrow> http_request \<Rightarrow> pyexc + unit" where
  "send_request env req = (case conn_request env req of Some e \<Rightarrow> Inl e | None \<Rightarrow> Inr ())"

text \<open>
  The status tests that close \<open>create_resource\<close>, \<open>update_resource\<close> and
  \<open>remove_resource\<close>, the same three lines in each.
\<close>

definition check_status :: "rest_client \<Rightarrow> response_dict \<Rightarrow> pyexc + (int \<times> response_dict)" where
  "check_status cl resp_dict =
     (let response_status = rd_status resp_dict
      in if is_proxy cl then Inr (response_status, resp_dict)
         else if response_status = 401 then Inl ServiceUnavailable
         else if \<not> is_valid_response response_status then Inl ServiceUnavailable
         else Inr (response_status, resp_dict))"

definition create_resource ::
    "http_env \<Rightarrow> rest_client \<Rightarrow> string \<Rightarrow> string \<Rightarrow> pyval \<Rightarrow> pyexc + (int \<times> response_dict)" where
  "create_resource env cl resource_path object_name object_data =
     pybind (request_body env (Some []) object_name object_data) (\<lambda>(body, has_serializer).
       let req = make_request cl ''POST'' resource_path body
       in guarded
            (pybind (get_connection cl) (\<lambda>_.
             pybind (send_request env req) (\<lambda>_.
             pybind (conn_getresponse env req) (\<lambda>response.
             pybind (get_response_dict env response has_serializer) (\<lambda>resp_dict.
               check_status cl resp_dict))))))"

definition retrieve_resource ::
    "http_env \<Rightarrow> rest_client \<Rightarrow> string \<Rightarrow> bool \<Rightarrow> pyexc + (int \<times> response_dict)" where
  "retrieve_resource env cl resource_path parse_response =
     (let req = make_request cl ''GET'' resource_path []
      in pybind (get_connection cl) (\<lambda>_.
         pybind (send_request env req) (\<lambda>_.
         guarded
           (pybind (conn_getresponse env req) (\<lambda>response.
            pybind (get_response_dict env response parse_response) (\<lambda>resp_dict.
              let response_status = rd_status resp_dict
              in if is_proxy cl then Inr (response_status, resp_dict)
                 else if response_status = 401 then Inl ServiceUnavailable
                 else Inr (rd_status resp_dict, resp_dict)))))))"

definition update_resource ::
    "http_env \<Rightarrow> rest_client \<Rightarrow> string \<Rightarrow> string \<Rightarrow> pyval \<Rightarrow> pyexc + (int \<times> response_dict)" where
  "update_resource env cl resource_path object_name object_data =
     pybind (request_body env None object_name object_data) (\<lambda>(body, has_serializer).
       let req = make_request cl ''PUT'' resource_path body
       in guarded
            (pybind (get_connection cl) (\<lambda>_.
             pybind (send_request env req) (\<lambda>_.
             pybind (conn_getresponse env req) (\<lambda>response.
             pybind (get_response_dict env response has_serializer) (\<lambda>resp_dict.
               check_status cl resp_dict))))))"

definition remove_resource ::
    "http_env \<Rightarrow> rest_client \<Rightarrow> string \<Rightarrow> bool \<Rightarrow> pyexc + (int \<times> response_dict)" where
  "remove_resource env cl resource_path parse_response =
     (let req = make_request cl ''DELETE'' resource_path []
      in pybind (get_connection cl) (\<lambda>_.
         pybind (send_request env req) (\<lambda>_.
         pybind (conn_getresponse env req) (\<lambda>response.
         pybind (get_response_dict env response parse_response) (\<lambda>resp_dict.
           check_status cl resp_dict)))))"

section \<open>Concrete inputs for the REST client\<close>

text \<open>
  A connection that answers every request with the given status and an empty body, and
  two clients that differ only in the proxy flag.
\<close>

definition sample_env :: "int \<Rightarrow> http_env" where
  "sample_env st =
     \<lparr>conn_request = (\<lambda>req. None),
      conn_getresponse = (\<lambda>req. Inr \<lparr>resp_status = st, resp_body = [], resp_headers = []\<rparr>),
      serialize = (\<lambda>name data. Inr ''<lbvserver/>''),
      deserialize = (\<lambda>text. Inr PyNone)\<rparr>"

definition sample_client :: "bool \<Rightarrow> rest_client" where
  "sample_client proxy =
     \<lparr>protocol = ''http'', service_path = ''/nitro/v1'', auth = PyStr ''Basic dXNlcjpwdw=='',
      client_headers = [], is_proxy = proxy\<rparr>"

section \<open>The collaborators of the agent driver\<close>

text \<open>
  The agent driver works through collaborators it is handed: the core plugin (subnets,
  networks, ports), the load-balancer plugin (pool records, the agent hosting a pool),
  the pool scheduler and the RPC proxy to the agents. Each of their operations is a call;
  \<open>Cast host method kwargs\<close> is a message cast to the topic of the agent on
  \<open>host\<close>.
\<close>

datatype api_call =
    GetSubnet pyval
  | GetNetwork pyval
  | GetPort pyval
  | GetPorts pydict
  | CreatePort pydict
  | UpdatePort pyval pydict
  | DeletePort pyval
  | GetPools pydict
  | DeleteDbPool pyval
  | GetLbaasAgentHostingPool pyval
  | Schedule pydict
  | Cast pyval string pydict

text \<open>
  The collaborators are a parameter: a function that answers a call in a world of any
  type and may change the world. The driver state holds the world and the calls made so
  far, in order.
\<close>

type_synonym 'w api = "api_call \<Rightarrow> 'w \<Rightarrow> (pyexc + pyval) \<times> 'w"

record 'w agent_state =
  trace :: "api_call list"
  world :: 'w

definition call_api :: "'w api \<Rightarrow> api_call \<Rightarrow> 'w agent_state \<Rightarrow> (pyexc + pyval) \<times> 'w agent_state" where
  "call_api api c s =
     (case api c (world s) of (r, w) \<Rightarrow> (r, \<lparr>trace = trace s @ [c], world = w\<rparr>))"

text \<open>
  Values from modules outside the sources: the service-type constant
  \<open>constants.LOADBALANCER\<close>, the sentinel \<open>attributes.ATTR_NOT_SPECIFIED\<close>,
  and \<open>host_uuid host\<close> for \<open>str(uuid.uuid5(uuid.NAMESPACE_DNS, str(host)))\<close>.
\<close>

record agent_consts =
  LOADBALANCER :: string
  ATTR_NOT_SPECIFIED :: pyval
  host_uuid :: "pyval \<Rightarrow> string"

text \<open>\<open>x[k] = v\<close> on any value: only a dictionary takes a string key.\<close>

definition py_setitem :: "pyval \<Rightarrow> string \<Rightarrow> pyval \<Rightarrow> pyexc + pyval" where
  "py_setitem x k v = (case x of PyDict d \<Rightarrow> Inr (PyDict (AList.update k v d)) | _ \<Rightarrow> Inl TypeError)"



definition is_PortNotFound :: "pyexc \<Rightarrow> bool" where
  "is_PortNotFound e = (case e of PortNotFound _ \<Rightarrow> True | _ \<Rightarrow> False)"

section \<open>The callbacks of the agent driver\<close>

definition plug_vip_port ::
    "agent_consts \<Rightarrow> 'w api \<Rightarrow> pyval \<Rightarrow> pyval \<Rightarrow> 'w agent_state \<Rightarrow> (pyexc + unit) \<times> 'w agent_state" where
  "plug_vip_port k api port_id host s =
     (if \<not> truthy port_id then (Inr (), s)
      else
        (case call_api api (GetPort port_id) s of
           (Inl e, s1) \<Rightarrow> (if is_PortNotFound e then (Inr (), s1) else (Inl e, s1))
         | (Inr port, s1) \<Rightarrow>
             then_do (pure_exc
               (pybind (py_setitem port ''admin_state_up'' (PyBool True)) (\<lambda>p1.
                pybind (py_setitem p1 ''device_owner'' (PyStr (''neutron:'' @ LOADBALANCER k))) (\<lambda>p2.
                py_setitem p2 ''device_id'' (PyStr (host_uuid k host)))))) (\<lambda>p3.
             then_do (call_api api (UpdatePort port_id (dict_literal [(''port'', p3)]))) (\<lambda>_.
               pure_exc (Inr ()))) s1))"

definition unplug_vip_port ::
    "'w api \<Rightarrow> pyval \<Rightarrow> pyval \<Rightarrow> 'w agent_state \<Rightarrow> (pyexc + unit) \<times> 'w agent_state" where
  "unplug_vip_port api port_id host s =
     (if \<not> truthy port_id then (Inr (), s)
      else
        (case call_api api (GetPort port_id) s of
           (Inl e, s1) \<Rightarrow> (if is_PortNotFound e then (Inr (), s1) else (Inl e, s1))
         | (Inr port, s1) \<Rightarrow>
             then_do (pure_exc
               (pybind (py_setitem port ''admin_state_up'' (PyBool False)) (\<lambda>p1.
                pybind (py_setitem p1 ''device_owner'' (PyStr [])) (\<lambda>p2.
                py_setitem p2 ''device_id'' (PyStr []))))) (\<lambda>p3 s2.
               (case call_api api (UpdatePort port_id (dict_literal [(''port'', p3)])) s2 of
                  (Inl e, s3) \<Rightarrow> (if is_PortNotFound e then (Inr (), s3) else (Inl e, s3))
                | (Inr _, s3) \<Rightarrow> (Inr (), s3))) s1))"

section \<open>The agent driver\<close>












section \<open>Kinds of collaborator calls\<close>




section \<open>A reference platform\<close>

text \<open>
  Modelled from the spec: the core plugin, the load-balancer plugin, the scheduler and
  the RPC proxy are not among the sources. The spec gives their contracts: a
  NetworkProvider with \<open>getSubnet\<close>, \<open>getNetwork\<close>, \<open>getPort\<close>,
  \<open>createPort\<close>, \<open>updatePort\<close>, \<open>deletePort\<close> and \<open>listPorts\<close>, of
  which \<open>getPort\<close> and \<open>updatePort\<close> fail with \<open>PortNotFound\<close> for a
  port that is gone; a store of pool records that can be listed by tenant and subnet; a
  PoolScheduler whose \<open>schedule\<close> answers an agent or \<open>None\<close>; a Messenger
  whose \<open>cast\<close> returns nothing. The platform below keeps subnets, networks,
  ports and pool records in lists, gives every created port a fresh id and an address on
  each of its fixed ips, and answers a list query with the records that carry, for every
  key of the filter, one of the values listed for it.
\<close>

record platform =
  subnets :: "(string \<times> string) list"
  networks :: "(string \<times> pydict) list"
  ports :: "pydict list"
  pools :: "pydict list"
  hosting :: "(pyval \<times> string) list"
  eligible :: "string option"
  port_seq :: nat

text \<open>Modelled from the spec: the filter of a list query (\<open>listPorts(filter)\<close>, the pools of a tenant and subnet): every key of the filter lists the values a record may carry for it.\<close>

definition matches :: "pydict \<Rightarrow> pydict \<Rightarrow> bool" where
  "matches filters obj =
     list_all (\<lambda>(k, vs). case vs of PyList xs \<Rightarrow> py_get obj k \<in> set xs | _ \<Rightarrow> False)
       filters"

text \<open>Modelled from the spec: the id the NetworkProvider gives its \<open>n\<close>-th port; distinct for distinct \<open>n\<close>.\<close>

definition port_name :: "nat \<Rightarrow> string" where
  "port_name n = ''port-'' @ replicate n CHR ''i''"

text \<open>Modelled from the spec: the address the NetworkProvider gives the fixed ip of its \<open>n\<close>-th port.\<close>

definition port_address :: "nat \<Rightarrow> string" where
  "port_address n = ''10.0.0.'' @ replicate n CHR ''i''"

text \<open>Modelled from the spec: \<open>createPort\<close> fills in the address of a fixed ip that asks for none.\<close>

definition allocate :: "nat \<Rightarrow> pyval \<Rightarrow> pyval" where
  "allocate n fixed_ip =
     (case fixed_ip of
        PyDict d \<Rightarrow>
          (if map_of d ''ip_address'' = None
           then PyDict (AList.update ''ip_address'' (PyStr (port_address n)) d)
           else PyDict d)
      | other \<Rightarrow> other)"

text \<open>Modelled from the spec: the answers of the NetworkProvider, the pool store, the PoolScheduler and the Messenger to each call, and what the call changes.\<close>

fun platform_step :: "api_call \<Rightarrow> platform \<Rightarrow> (pyexc + pyval) \<times> platform" where
  "platform_step (GetSubnet i) w =
     ((case i of
         PyStr sid \<Rightarrow>
           (case map_of (subnets w) sid of
              Some nid \<Rightarrow> Inr (PyDict [(''id'', PyStr sid), (''network_id'', PyStr nid)])
            | None \<Rightarrow> Inl (SubnetNotFound sid))
       | _ \<Rightarrow> Inl (SubnetNotFound [])), w)"
| "platform_step (GetNetwork i) w =
     ((case i of
         PyStr nid \<Rightarrow>
           (case map_of (networks w) nid of
              Some n \<Rightarrow> Inr (PyDict n)
            | None \<Rightarrow> Inl (NetworkNotFound nid))
       | _ \<Rightarrow> Inl (NetworkNotFound [])), w)"
| "platform_step (GetPort i) w =
     ((case find (\<lambda>p. py_get p ''id'' = i) (ports w) of
         Some p \<Rightarrow> Inr (PyDict p)
       | None \<Rightarrow> Inl (PortNotFound [])), w)"
| "platform_step (GetPorts f) w = (Inr (PyList (map PyDict (filter (matches f) (ports w)))), w)"
| "platform_step (CreatePort body) w =
     (case py_get body ''port'' of
        PyDict port_data \<Rightarrow>
          (let n = port_seq w;
               ips = (case py_get port_data ''fixed_ips'' of
                        PyList fs \<Rightarrow> PyList (map (allocate n) fs)
                      | other \<Rightarrow> other);
               port = AList.update ''id'' (PyStr (port_name n))
                        (AList.update ''fixed_ips'' ips port_data)
           in (Inr (PyDict port), w\<lparr>ports := ports w @ [port], port_seq := Suc n\<rparr>))
      | _ \<Rightarrow> (Inl (OtherError ''bad request''), w))"
| "platform_step (UpdatePort i body) w =
     (case find (\<lambda>p. py_get p ''id'' = i) (ports w) of
        None \<Rightarrow> (Inl (PortNotFound []), w)
      | Some _ \<Rightarrow>
          (case py_get body ''port'' of
             PyDict p \<Rightarrow>
               (Inr (PyDict p),
                w\<lparr>ports := map (\<lambda>q. if py_get q ''id'' = i then p else q) (ports w)\<rparr>)
           | _ \<Rightarrow> (Inl (OtherError ''bad request''), w)))"
| "platform_step (DeletePort i) w =
     (Inr PyNone, w\<lparr>ports := filter (\<lambda>p. py_get p ''id'' \<noteq> i) (ports w)\<rparr>)"
| "platform_step (GetPools f) w = (Inr (PyList (map PyDict (filter (matches f) (pools w)))), w)"
| "platform_step (DeleteDbPool i) w =
     (Inr PyNone, w\<lparr>pools := filter (\<lambda>p. py_get p ''id'' \<noteq> i) (pools w)\<rparr>)"
| "platform_step (GetLbaasAgentHostingPool i) w =
     ((case map_of (hosting w) i of
         Some h \<Rightarrow> Inr (PyDict [(''agent'', PyDict [(''host'', PyStr h)])])
       | None \<Rightarrow> Inr PyNone), w)"
| "platform_step (Schedule pool) w =
     (case eligible w of
        None \<Rightarrow> (Inr PyNone, w)
      | Some h \<Rightarrow>
          (Inr (PyDict [(''host'', PyStr h)]), w\<lparr>hosting := (py_get pool ''id'', h) # hosting w\<rparr>))"
| "platform_step (Cast host meth kwargs) w = (Inr PyNone, w)"








section \<open>The SNAT port invariant\<close>





section \<open>Concrete inputs for the agent driver\<close>

text \<open>
  A platform with two subnets on one network and an agent on \<open>host-1\<close>; two pools
  of tenant \<open>t1\<close> on subnet \<open>S1\<close>, and the first of them moved to \<open>S2\<close>.
  In \<open>moved_platform\<close> pool \<open>p1\<close> is already recorded on \<open>S2\<close> and was the
  only pool on \<open>S1\<close>, whose SNAT port still exists. \<open>vanishing_port_api\<close>
  is a core plugin under which a port is removed by another actor between the lookup and
  the update.
\<close>

definition sample_agent_consts :: agent_consts where
  "sample_agent_consts =
     \<lparr>LOADBALANCER = ''LOADBALANCER'',
      ATTR_NOT_SPECIFIED = PyStr ''ATTR_NOT_SPECIFIED'',
      host_uuid = (\<lambda>host. ''6fa459ea-ee8a-3ca4-894e-db77e160355e'')\<rparr>"

definition empty_platform :: platform where
  "empty_platform =
     \<lparr>subnets = [(''S1'', ''net-1''), (''S2'', ''net-1'')],
      networks = [(''net-1'', [(''id'', PyStr ''net-1'')])],
      ports = [],
      pools = [],
      hosting = [],
      eligible = Some ''host-1'',
      port_seq = 0\<rparr>"




definition vanishing_port_api :: "unit api" where
  "vanishing_port_api c w =
     (case c of
        GetPort i \<Rightarrow> (Inr (PyDict [(''id'', i), (''admin_state_up'', PyBool True)]), w)
      | UpdatePort i body \<Rightarrow> (Inl (PortNotFound ''port-1''), w)
      | _ \<Rightarrow> (Inr PyNone, w))"


section \<open>Location parsing\<close>

lemma rfind_lower: "- 1 \<le> rfind s c"
  by (induction s) (auto simp: Let_def)

lemma rfind_absent: "c \<notin> set s \<Longrightarrow> rfind s c = - 1"
  by (induction s) (auto simp: Let_def)

lemma rfind_present: "c \<in> set s \<Longrightarrow> 0 \<le> rfind s c"
  by (induction s) (auto simp: Let_def)

lemma rfind_last: "c \<notin> set t \<Longrightarrow> rfind (p @ c # t) c = int (length p)"
proof (induction p)
  case Nil
  then show ?case by (simp add: rfind_absent)
next
  case (Cons a p)
  then show ?case by (simp add: Let_def)
qed

lemma create_pool_binding:
  assumes "create_pool c vcns edge_id pool members st = (Inr u, st')"
  shows "\<exists>payload h b loc i.
      vcns (calls st) (CreatePool edge_id payload) = Inr (h, b) \<and>
      map_of h ''location'' = Some loc \<and>
      py_item pool ''id'' = Inr i \<and>
      db st' = add_vcns_edge_pool_binding (db st)
                 \<lparr>pool_id = i, pool_vseid = location_id loc, pool_edge_id = edge_id\<rparr>"
  using assms
  by (auto simp: create_pool_def then_do_def pure_exc_def invoke_def Let_def header_item_def
      split: sum.splits prod.splits option.splits) blast

text \<open>
  C7. The identifier taken from a location string is exactly the text after its final
  \<open>/\<close>: a string \<open>p/t\<close> whose tail \<open>t\<close> holds no further \<open>/\<close> gives
  \<open>t\<close>, and a string with no \<open>/\<close> at all is taken whole. It is this
  identifier that a successful \<open>create_pool\<close> records as the backend id of the
  pool, taken from the location of the create response.
\<close>

theorem location_id_after_final_slash:
  "(CHR ''/'' \<notin> set t \<longrightarrow> location_id (p @ CHR ''/'' # t) = t) \<and>
   (CHR ''/'' \<notin> set s \<longrightarrow> location_id s = s) \<and>
   (create_pool c vcns edge_id pool members st = (Inr u, st') \<longrightarrow>
      (\<exists>payload h b loc i.
         vcns (calls st) (CreatePool edge_id payload) = Inr (h, b) \<and>
         map_of h ''location'' = Some loc \<and>
         py_item pool ''id'' = Inr i \<and>
         db st' = add_vcns_edge_pool_binding (db st)
                    \<lparr>pool_id = i, pool_vseid = location_id loc, pool_edge_id = edge_id\<rparr>))"
proof (intro conjI impI)
  assume "CHR ''/'' \<notin> set t"
  then have "rfind (p @ CHR ''/'' # t) CHR ''/'' = int (length p)"
    by (rule rfind_last)
  then show "location_id (p @ CHR ''/'' # t) = t"
    by (simp add: location_id_def slice_from_def nat_add_distrib)
next
  assume "CHR ''/'' \<notin> set s"
  then have "rfind s CHR ''/'' = - 1"
    by (rule rfind_absent)
  then show "location_id s = s"
    by (simp add: location_id_def slice_from_def)
next
  assume "create_pool c vcns edge_id pool members st = (Inr u, st')"
  then show "\<exists>payload h b loc i.
         vcns (calls st) (CreatePool edge_id payload) = Inr (h, b) \<and>
         map_of h ''location'' = Some loc \<and>
         py_item pool ''id'' = Inr i \<and>
         db st' = add_vcns_edge_pool_binding (db st)
                    \<lparr>pool_id = i, pool_vseid = location_id loc, pool_edge_id = edge_id\<rparr>"
    by (rule create_pool_binding)
qed

theorem location_id_after_final_slash_witness:
  "location_id (''/api/4.0/edges/edge-1/pools'' @ CHR ''/'' # ''abc123'') = ''abc123'' \<and>
   location_id ''pool-7'' = ''pool-7'' \<and>
   create_pool sample_constants sample_vcns ''edge-1''
     [(''id'', PyStr ''pool-9''), (''name'', PyStr ''web-pool''),
      (''lb_method'', PyStr ''LEAST_CONNECTIONS'')] []
     \<lparr>db = sample_db, calls = []\<rparr> =
   (Inr (),
    \<lparr>db = add_vcns_edge_pool_binding sample_db
            \<lparr>pool_id = PyStr ''pool-9'', pool_vseid = ''pool-2'', pool_edge_id = ''edge-1''\<rparr>,
     calls = [CreatePool ''edge-1''
               [(''name'', PyStr ''web-pool''), (''algorithm'', PyStr ''leastconn''),
                (''member'', PyList []), (''monitorId'', PyList [])]]\<rparr>)"
proof -
  have h: "create_pool sample_constants sample_vcns ''edge-1''
     [(''id'', PyStr ''pool-9''), (''name'', PyStr ''web-pool''),
      (''lb_method'', PyStr ''LEAST_CONNECTIONS'')] []
     \<lparr>db = sample_db, calls = []\<rparr> =
   (Inr (),
    \<lparr>db = add_vcns_edge_pool_binding sample_db
            \<lparr>pool_id = PyStr ''pool-9'', pool_vseid = ''pool-2'', pool_edge_id = ''edge-1''\<rparr>,
     calls = [CreatePool ''edge-1''
               [(''name'', PyStr ''web-pool''), (''algorithm'', PyStr ''leastconn''),
                (''member'', PyList []), (''monitorId'', PyList [])]]\<rparr>)"
    by (simp add: create_pool_def then_do_def pure_exc_def invoke_def Let_def header_item_def
        convert_lb_pool_def pybind_def dict_get_def BALANCE_MAP_def dict_literal_def py_get_def
        py_item_def sample_constants_def sample_vcns_def location_id_def slice_from_def)
  from location_id_after_final_slash
    [of "''abc123''" "''/api/4.0/edges/edge-1/pools''" "''pool-7''" sample_constants
        sample_vcns "''edge-1''"
        "[(''id'', PyStr ''pool-9''), (''name'', PyStr ''web-pool''),
          (''lb_method'', PyStr ''LEAST_CONNECTIONS'')]" "[]"
        "\<lparr>db = sample_db, calls = []\<rparr>"]
    h
  show ?thesis by simp
qed

section \<open>Dictionary literals and store lookups\<close>

lemma map_of_dict_literal: "map_of (dict_literal kvs) k = map_of (rev kvs) k"
proof -
  have "map_of (foldl (\<lambda>d (k, v). AList.update k v d) acc kvs) k = map_of (rev kvs @ acc) k"
    for acc
  proof (induction kvs arbitrary: acc)
    case Nil
    then show ?case by simp
  next
    case (Cons a kvs)
    then show ?case
      by (cases a) (simp add: update_conv' map_add_def split: option.splits)
  qed
  from this [of "[]"] show ?thesis
    by (simp add: dict_literal_def)
qed

lemma find_Some_D: "find P xs = Some x \<Longrightarrow> P x \<and> x \<in> set xs"
  by (induction xs) (auto split: if_splits)

lemma find_None_I: "\<forall>x\<in>set xs. \<not> P x \<Longrightarrow> find P xs = None"
  by (simp add: find_None_iff)

lemma vip_lookup_miss:
  "\<forall>b\<in>set (vip_bindings d). vip_id b \<noteq> i \<Longrightarrow>
     get_vcns_edge_vip_binding d i = Inl (VcnsNotFound ''router_service_binding'')"
  by (simp add: get_vcns_edge_vip_binding_def find_None_I)

lemma pool_lookup_miss:
  "\<forall>b\<in>set (pool_bindings d). \<not> (pool_id b = i \<and> pool_edge_id b = e) \<Longrightarrow>
     get_vcns_edge_pool_binding d i e = None"
  by (simp add: get_vcns_edge_pool_binding_def find_None_I)

lemma monitor_lookup_miss:
  "\<forall>b\<in>set (monitor_bindings d). \<not> (monitor_id b = i \<and> monitor_edge_id b = e) \<Longrightarrow>
     get_vcns_edge_monitor_binding d i e = None"
  by (simp add: get_vcns_edge_monitor_binding_def find_None_I)

lemma pool_lookup_hit:
  assumes "b0 \<in> set (pool_bindings d)" "pool_id b0 = i" "pool_edge_id b0 = e"
  shows "\<exists>b. get_vcns_edge_pool_binding d i e = Some b \<and> b \<in> set (pool_bindings d) \<and>
              pool_id b = i \<and> pool_edge_id b = e"
proof -
  from assms have "find (\<lambda>b. pool_id b = i \<and> pool_edge_id b = e) (pool_bindings d) \<noteq> None"
    by (auto simp: find_None_iff)
  then obtain b where "find (\<lambda>b. pool_id b = i \<and> pool_edge_id b = e) (pool_bindings d) = Some b"
    by auto
  with find_Some_D [OF this] show ?thesis
    by (auto simp: get_vcns_edge_pool_binding_def)
qed

lemma convert_lb_vip_bound:
  assumes "get_vcns_edge_pool_binding d (py_get vip ''pool_id'') edge_id = Some b"
  shows "convert_lb_vip d edge_id vip app =
     Inr (dict_literal
            [(''name'', py_get vip ''name''),
             (''ipAddress'', py_get vip ''address''),
             (''protocol'', py_get vip ''protocol''),
             (''port'', py_get vip ''protocol_port''),
             (''defaultPoolId'', PyStr (pool_vseid b)),
             (''applicationProfileId'', PyStr app)])"
  using assms by (simp add: convert_lb_vip_def Let_def)

section \<open>Vip creation and deletion on the edge driver\<close>

lemma create_vip_outcome:
  assumes "create_vip vcns edge_id vip s = (r, s')"
  shows "(case r of
      Inr u \<Rightarrow>
        (\<exists>name h1 b1 loc1 payload h2 b2 loc2 i.
            py_item vip ''name'' = Inr name \<and>
            vcns (calls s) (CreateAppProfile edge_id
               (convert_app_profile name (py_get vip ''session_persistence''))) = Inr (h1, b1) \<and>
            map_of h1 ''location'' = Some loc1 \<and>
            convert_lb_vip (db s) edge_id vip (location_id loc1) = Inr payload \<and>
            map_of payload ''applicationProfileId'' = Some (PyStr (location_id loc1)) \<and>
            vcns (calls s @ [CreateAppProfile edge_id
               (convert_app_profile name (py_get vip ''session_persistence''))])
               (CreateVip edge_id payload) = Inr (h2, b2) \<and>
            map_of h2 ''location'' = Some loc2 \<and>
            py_item vip ''id'' = Inr i \<and>
            calls s' = calls s @ [CreateAppProfile edge_id
               (convert_app_profile name (py_get vip ''session_persistence'')),
               CreateVip edge_id payload] \<and>
            db s' = add_vcns_edge_vip_binding (db s)
              \<lparr>vip_id = i, vip_vseid = location_id loc2, vip_edge_id = edge_id,
               app_profileid = location_id loc1\<rparr>)
    | Inl e \<Rightarrow>
        db s' = db s \<and>
        (calls s' = calls s \<or>
         (\<exists>ap. calls s' = calls s @ [CreateAppProfile edge_id ap]) \<or>
         (\<exists>ap payload.
            calls s' = calls s @ [CreateAppProfile edge_id ap, CreateVip edge_id payload])))"
  using assms
  apply (simp add: create_vip_def then_do_def pure_exc_def invoke_def Let_def header_item_def
      split: sum.splits prod.splits option.splits)
  apply (auto simp: convert_lb_vip_def Let_def dict_literal_def split: option.splits)
  done

lemma create_vip_profile_refused:
  assumes "py_item vip ''name'' = Inr name"
    and "ap = convert_app_profile name (py_get vip ''session_persistence'')"
    and "vcns (calls s) (CreateAppProfile edge_id ap) = Inl e"
  shows "create_vip vcns edge_id vip s =
           (Inl e, s\<lparr>calls := calls s @ [CreateAppProfile edge_id ap]\<rparr>)"
  using assms by (simp add: create_vip_def then_do_def pure_exc_def invoke_def Let_def)

lemma create_vip_vip_refused:
  assumes "py_item vip ''name'' = Inr name"
    and "ap = convert_app_profile name (py_get vip ''session_persistence'')"
    and "vcns (calls s) (CreateAppProfile edge_id ap) = Inr (h1, b1)"
    and "map_of h1 ''location'' = Some loc1"
    and "convert_lb_vip (db s) edge_id vip (location_id loc1) = Inr payload"
    and "vcns (calls s @ [CreateAppProfile edge_id ap]) (CreateVip edge_id payload) = Inl e"
  shows "create_vip vcns edge_id vip s =
           (Inl e, s\<lparr>calls := calls s @ [CreateAppProfile edge_id ap, CreateVip edge_id payload]\<rparr>)"
  using assms
  by (simp add: create_vip_def then_do_def pure_exc_def invoke_def Let_def header_item_def)

lemma create_vip_accepted:
  assumes "py_item vip ''name'' = Inr name"
    and "ap = convert_app_profile name (py_get vip ''session_persistence'')"
    and "vcns (calls s) (CreateAppProfile edge_id ap) = Inr (h1, b1)"
    and "map_of h1 ''location'' = Some loc1"
    and "convert_lb_vip (db s) edge_id vip (location_id loc1) = Inr payload"
    and "vcns (calls s @ [CreateAppProfile edge_id ap]) (CreateVip edge_id payload) = Inr (h2, b2)"
    and "map_of h2 ''location'' = Some loc2"
    and "py_item vip ''id'' = Inr i"
  shows "create_vip vcns edge_id vip s =
           (Inr (), s\<lparr>calls := calls s @ [CreateAppProfile edge_id ap, CreateVip edge_id payload],
                      db := add_vcns_edge_vip_binding (db s)
                        \<lparr>vip_id = i, vip_vseid = location_id loc2, vip_edge_id = edge_id,
                         app_profileid = location_id loc1\<rparr>\<rparr>)"
  using assms
  by (simp add: create_vip_def then_do_def pure_exc_def invoke_def Let_def header_item_def)

lemma create_vip_two_calls:
  assumes "py_item vip ''name'' = Inr name"
    and "ap = convert_app_profile name (py_get vip ''session_persistence'')"
    and "vcns (calls s) (CreateAppProfile edge_id ap) = Inr (h1, b1)"
    and "map_of h1 ''location'' = Some loc1"
    and "convert_lb_vip (db s) edge_id vip (location_id loc1) = Inr payload"
  shows "calls (snd (create_vip vcns edge_id vip s)) =
           calls s @ [CreateAppProfile edge_id ap, CreateVip edge_id payload]"
  using assms
  by (simp add: create_vip_def then_do_def pure_exc_def invoke_def Let_def header_item_def
      split: sum.splits prod.splits option.splits)

text \<open>
  C1. \<open>create_vip\<close> issues its backend calls in the order application profile, then
  vip, and never more than these two. For a vip with a name:
  if the backend refuses the profile, the operation raises that error after this one call;
  if the backend accepts the profile and the vip's pool has a binding on the edge, the vip
  call is issued with a payload that carries, under \<open>applicationProfileId\<close>, the
  identifier cut from the location of the profile response, so that exactly these two
  calls are issued whatever the backend answers to the second; and then either the backend
  refuses the vip and the operation raises that error with the store unchanged, or it
  accepts it and the operation returns with the vip's binding added to the store. Whatever the input, a normal return means that both calls were
  answered without raising, and an operation that raises leaves the store as it was.
\<close>

theorem create_vip_profile_then_vip_then_binding:
  "(py_item vip ''name'' = Inr name \<and>
    ap = convert_app_profile name (py_get vip ''session_persistence'') \<and>
    vcns (calls s) (CreateAppProfile edge_id ap) = Inl e1 \<longrightarrow>
      create_vip vcns edge_id vip s =
        (Inl e1, s\<lparr>calls := calls s @ [CreateAppProfile edge_id ap]\<rparr>)) \<and>
   (py_item vip ''name'' = Inr name \<and>
    ap = convert_app_profile name (py_get vip ''session_persistence'') \<and>
    vcns (calls s) (CreateAppProfile edge_id ap) = Inr (h1, b1) \<and>
    map_of h1 ''location'' = Some loc1 \<and>
    get_vcns_edge_pool_binding (db s) (py_get vip ''pool_id'') edge_id = Some b \<and>
    payload = dict_literal
      [(''name'', py_get vip ''name''),
       (''ipAddress'', py_get vip ''address''),
       (''protocol'', py_get vip ''protocol''),
       (''port'', py_get vip ''protocol_port''),
       (''defaultPoolId'', PyStr (pool_vseid b)),
       (''applicationProfileId'', PyStr (location_id loc1))] \<longrightarrow>
      calls (snd (create_vip vcns edge_id vip s)) =
        calls s @ [CreateAppProfile edge_id ap, CreateVip edge_id payload] \<and>
      (vcns (calls s @ [CreateAppProfile edge_id ap]) (CreateVip edge_id payload) = Inl e2 \<longrightarrow>
         create_vip vcns edge_id vip s =
           (Inl e2, s\<lparr>calls := calls s @ [CreateAppProfile edge_id ap,
                                           CreateVip edge_id payload]\<rparr>)) \<and>
      (vcns (calls s @ [CreateAppProfile edge_id ap]) (CreateVip edge_id payload) = Inr (h2, b2) \<and>
       map_of h2 ''location'' = Some loc2 \<and>
       py_item vip ''id'' = Inr i \<longrightarrow>
         create_vip vcns edge_id vip s =
           (Inr (), s\<lparr>calls := calls s @ [CreateAppProfile edge_id ap,
                                           CreateVip edge_id payload],
                      db := add_vcns_edge_vip_binding (db s)
                        \<lparr>vip_id = i, vip_vseid = location_id loc2, vip_edge_id = edge_id,
                         app_profileid = location_id loc1\<rparr>\<rparr>))) \<and>
   (create_vip vcns edge_id vip s = (r, s') \<longrightarrow>
     (case r of
        Inr u \<Rightarrow>
          (\<exists>name h1 b1 loc1 payload h2 b2 loc2 i.
              py_item vip ''name'' = Inr name \<and>
              vcns (calls s) (CreateAppProfile edge_id
                 (convert_app_profile name (py_get vip ''session_persistence''))) = Inr (h1, b1) \<and>
              map_of h1 ''location'' = Some loc1 \<and>
              convert_lb_vip (db s) edge_id vip (location_id loc1) = Inr payload \<and>
              map_of payload ''applicationProfileId'' = Some (PyStr (location_id loc1)) \<and>
              vcns (calls s @ [CreateAppProfile edge_id
                 (convert_app_profile name (py_get vip ''session_persistence''))])
                 (CreateVip edge_id payload) = Inr (h2, b2) \<and>
              map_of h2 ''location'' = Some loc2 \<and>
              py_item vip ''id'' = Inr i \<and>
              calls s' = calls s @ [CreateAppProfile edge_id
                 (convert_app_profile name (py_get vip ''session_persistence'')),
                 CreateVip edge_id payload] \<and>
              db s' = add_vcns_edge_vip_binding (db s)
                \<lparr>vip_id = i, vip_vseid = location_id loc2, vip_edge_id = edge_id,
                 app_profileid = location_id loc1\<rparr>)
      | Inl e \<Rightarrow>
          db s' = db s \<and>
          (calls s' = calls s \<or>
           (\<exists>ap. calls s' = calls s @ [CreateAppProfile edge_id ap]) \<or>
           (\<exists>ap payload.
              calls s' = calls s @ [CreateAppProfile edge_id ap, CreateVip edge_id payload]))))"
proof (intro conjI)
  show "py_item vip ''name'' = Inr name \<and>
    ap = convert_app_profile name (py_get vip ''session_persistence'') \<and>
    vcns (calls s) (CreateAppProfile edge_id ap) = Inl e1 \<longrightarrow>
      create_vip vcns edge_id vip s =
        (Inl e1, s\<lparr>calls := calls s @ [CreateAppProfile edge_id ap]\<rparr>)"
    using create_vip_profile_refused [where vcns = vcns] by blast
next
  show "py_item vip ''name'' = Inr name \<and>
    ap = convert_app_profile name (py_get vip ''session_persistence'') \<and>
    vcns (calls s) (CreateAppProfile edge_id ap) = Inr (h1, b1) \<and>
    map_of h1 ''location'' = Some loc1 \<and>
    get_vcns_edge_pool_binding (db s) (py_get vip ''pool_id'') edge_id = Some b \<and>
    payload = dict_literal
      [(''name'', py_get vip ''name''),
       (''ipAddress'', py_get vip ''address''),
       (''protocol'', py_get vip ''protocol''),
       (''port'', py_get vip ''protocol_port''),
       (''defaultPoolId'', PyStr (pool_vseid b)),
       (''applicationProfileId'', PyStr (location_id loc1))] \<longrightarrow>
      calls (snd (create_vip vcns edge_id vip s)) =
        calls s @ [CreateAppProfile edge_id ap, CreateVip edge_id payload] \<and>
      (vcns (calls s @ [CreateAppProfile edge_id ap]) (CreateVip edge_id payload) = Inl e2 \<longrightarrow>
         create_vip vcns edge_id vip s =
           (Inl e2, s\<lparr>calls := calls s @ [CreateAppProfile edge_id ap,
                                           CreateVip edge_id payload]\<rparr>)) \<and>
      (vcns (calls s @ [CreateAppProfile edge_id ap]) (CreateVip edge_id payload) = Inr (h2, b2) \<and>
       map_of h2 ''location'' = Some loc2 \<and>
       py_item vip ''id'' = Inr i \<longrightarrow>
         create_vip vcns edge_id vip s =
           (Inr (), s\<lparr>calls := calls s @ [CreateAppProfile edge_id ap,
                                           CreateVip edge_id payload],
                      db := add_vcns_edge_vip_binding (db s)
                        \<lparr>vip_id = i, vip_vseid = location_id loc2, vip_edge_id = edge_id,
                         app_profileid = location_id loc1\<rparr>\<rparr>))"
  proof
    assume "py_item vip ''name'' = Inr name \<and>
      ap = convert_app_profile name (py_get vip ''session_persistence'') \<and>
      vcns (calls s) (CreateAppProfile edge_id ap) = Inr (h1, b1) \<and>
      map_of h1 ''location'' = Some loc1 \<and>
      get_vcns_edge_pool_binding (db s) (py_get vip ''pool_id'') edge_id = Some b \<and>
      payload = dict_literal
        [(''name'', py_get vip ''name''),
         (''ipAddress'', py_get vip ''address''),
         (''protocol'', py_get vip ''protocol''),
         (''port'', py_get vip ''protocol_port''),
         (''defaultPoolId'', PyStr (pool_vseid b)),
         (''applicationProfileId'', PyStr (location_id loc1))]"
    then have n: "py_item vip ''name'' = Inr name"
      and ap: "ap = convert_app_profile name (py_get vip ''session_persistence'')"
      and p: "vcns (calls s) (CreateAppProfile edge_id ap) = Inr (h1, b1)"
      and l1: "map_of h1 ''location'' = Some loc1"
      and b: "get_vcns_edge_pool_binding (db s) (py_get vip ''pool_id'') edge_id = Some b"
      and pl: "payload = dict_literal
        [(''name'', py_get vip ''name''),
         (''ipAddress'', py_get vip ''address''),
         (''protocol'', py_get vip ''protocol''),
         (''port'', py_get vip ''protocol_port''),
         (''defaultPoolId'', PyStr (pool_vseid b)),
         (''applicationProfileId'', PyStr (location_id loc1))]"
      by blast+
    have c: "convert_lb_vip (db s) edge_id vip (location_id loc1) = Inr payload"
      unfolding pl by (rule convert_lb_vip_bound [OF b])
    show "calls (snd (create_vip vcns edge_id vip s)) =
        calls s @ [CreateAppProfile edge_id ap, CreateVip edge_id payload] \<and>
      (vcns (calls s @ [CreateAppProfile edge_id ap]) (CreateVip edge_id payload) = Inl e2 \<longrightarrow>
         create_vip vcns edge_id vip s =
           (Inl e2, s\<lparr>calls := calls s @ [CreateAppProfile edge_id ap,
                                           CreateVip edge_id payload]\<rparr>)) \<and>
      (vcns (calls s @ [CreateAppProfile edge_id ap]) (CreateVip edge_id payload) = Inr (h2, b2) \<and>
       map_of h2 ''location'' = Some loc2 \<and>
       py_item vip ''id'' = Inr i \<longrightarrow>
         create_vip vcns edge_id vip s =
           (Inr (), s\<lparr>calls := calls s @ [CreateAppProfile edge_id ap,
                                           CreateVip edge_id payload],
                      db := add_vcns_edge_vip_binding (db s)
                        \<lparr>vip_id = i, vip_vseid = location_id loc2, vip_edge_id = edge_id,
                         app_profileid = location_id loc1\<rparr>\<rparr>))"
      using create_vip_vip_refused [where vcns = vcns, OF n ap p l1 c]
        create_vip_accepted [where vcns = vcns, OF n ap p l1 c]
        create_vip_two_calls [where vcns = vcns, OF n ap p l1 c]
      by blast
  qed
next
  show "create_vip vcns edge_id vip s = (r, s') \<longrightarrow>
     (case r of
        Inr u \<Rightarrow>
          (\<exists>name h1 b1 loc1 payload h2 b2 loc2 i.
              py_item vip ''name'' = Inr name \<and>
              vcns (calls s) (CreateAppProfile edge_id
                 (convert_app_profile name (py_get vip ''session_persistence''))) = Inr (h1, b1) \<and>
              map_of h1 ''location'' = Some loc1 \<and>
              convert_lb_vip (db s) edge_id vip (location_id loc1) = Inr payload \<and>
              map_of payload ''applicationProfileId'' = Some (PyStr (location_id loc1)) \<and>
              vcns (calls s @ [CreateAppProfile edge_id
                 (convert_app_profile name (py_get vip ''session_persistence''))])
                 (CreateVip edge_id payload) = Inr (h2, b2) \<and>
              map_of h2 ''location'' = Some loc2 \<and>
              py_item vip ''id'' = Inr i \<and>
              calls s' = calls s @ [CreateAppProfile edge_id
                 (convert_app_profile name (py_get vip ''session_persistence'')),
                 CreateVip edge_id payload] \<and>
              db s' = add_vcns_edge_vip_binding (db s)
                \<lparr>vip_id = i, vip_vseid = location_id loc2, vip_edge_id = edge_id,
                 app_profileid = location_id loc1\<rparr>)
      | Inl e \<Rightarrow>
          db s' = db s \<and>
          (calls s' = calls s \<or>
           (\<exists>ap. calls s' = calls s @ [CreateAppProfile edge_id ap]) \<or>
           (\<exists>ap payload.
              calls s' = calls s @ [CreateAppProfile edge_id ap, CreateVip edge_id payload])))"
    by (rule impI) (rule create_vip_outcome)
qed

theorem create_vip_profile_then_vip_then_binding_witness:
  "create_vip sample_vcns ''edge-1'' sample_vip \<lparr>db = sample_db, calls = []\<rparr> =
     (Inr (),
      \<lparr>db = add_vcns_edge_vip_binding sample_db sample_vip_binding,
       calls =
         [CreateAppProfile ''edge-1'' (convert_app_profile (PyStr ''web'') PyNone),
          CreateVip ''edge-1''
            [(''name'', PyStr ''web''),
             (''ipAddress'', PyStr ''10.0.0.5''),
             (''protocol'', PyStr ''HTTP''),
             (''port'', PyInt 80),
             (''defaultPoolId'', PyStr ''P1''),
             (''applicationProfileId'', PyStr ''applicationProfile-7'')]]\<rparr>) \<and>
   create_vip (refusing_vcns True) ''edge-1'' sample_vip \<lparr>db = sample_db, calls = []\<rparr> =
     (Inl (VcnsApiException ''profile refused''),
      \<lparr>db = sample_db,
       calls = [CreateAppProfile ''edge-1'' (convert_app_profile (PyStr ''web'') PyNone)]\<rparr>) \<and>
   create_vip (refusing_vcns False) ''edge-1'' sample_vip \<lparr>db = sample_db, calls = []\<rparr> =
     (Inl (VcnsApiException ''vip refused''),
      \<lparr>db = sample_db,
       calls =
         [CreateAppProfile ''edge-1'' (convert_app_profile (PyStr ''web'') PyNone),
          CreateVip ''edge-1''
            [(''name'', PyStr ''web''),
             (''ipAddress'', PyStr ''10.0.0.5''),
             (''protocol'', PyStr ''HTTP''),
             (''port'', PyInt 80),
             (''defaultPoolId'', PyStr ''P1''),
             (''applicationProfileId'', PyStr ''applicationProfile-7'')]]\<rparr>)"
  using
    create_vip_profile_then_vip_then_binding
      [where vcns = sample_vcns and vip = sample_vip and edge_id = "''edge-1''"
         and s = "\<lparr>db = sample_db, calls = []\<rparr>" and name = "PyStr ''web''"
         and ap = "convert_app_profile (PyStr ''web'') PyNone"
         and ?h1.0 = "[(''location'', ''/api/4.0/edges/edge-1/appprofiles/applicationProfile-7'')]"
         and ?b1.0 = PyNone and ?loc1.0 = "''/api/4.0/edges/edge-1/appprofiles/applicationProfile-7''"
         and b = "\<lparr>pool_id = PyStr ''pool-1'', pool_vseid = ''P1'', pool_edge_id = ''edge-1''\<rparr>"
         and payload = "[(''name'', PyStr ''web''),
             (''ipAddress'', PyStr ''10.0.0.5''),
             (''protocol'', PyStr ''HTTP''),
             (''port'', PyInt 80),
             (''defaultPoolId'', PyStr ''P1''),
             (''applicationProfileId'', PyStr ''applicationProfile-7'')]"
         and ?h2.0 = "[(''location'', ''/api/4.0/edges/edge-1/vips/virtualServer-3'')]"
         and ?b2.0 = PyNone and ?loc2.0 = "''/api/4.0/edges/edge-1/vips/virtualServer-3''"
         and i = "PyStr ''vip-1''"]
    create_vip_profile_then_vip_then_binding
      [where vcns = "refusing_vcns True" and vip = sample_vip and edge_id = "''edge-1''"
         and s = "\<lparr>db = sample_db, calls = []\<rparr>" and name = "PyStr ''web''"
         and ap = "convert_app_profile (PyStr ''web'') PyNone"
         and ?e1.0 = "VcnsApiException ''profile refused''"]
    create_vip_profile_then_vip_then_binding
      [where vcns = "refusing_vcns False" and vip = sample_vip and edge_id = "''edge-1''"
         and s = "\<lparr>db = sample_db, calls = []\<rparr>" and name = "PyStr ''web''"
         and ap = "convert_app_profile (PyStr ''web'') PyNone"
         and ?h1.0 = "[(''location'', ''/api/4.0/edges/edge-1/appprofiles/applicationProfile-7'')]"
         and ?b1.0 = PyNone and ?loc1.0 = "''/api/4.0/edges/edge-1/appprofiles/applicationProfile-7''"
         and b = "\<lparr>pool_id = PyStr ''pool-1'', pool_vseid = ''P1'', pool_edge_id = ''edge-1''\<rparr>"
         and payload = "[(''name'', PyStr ''web''),
             (''ipAddress'', PyStr ''10.0.0.5''),
             (''protocol'', PyStr ''HTTP''),
             (''port'', PyInt 80),
             (''defaultPoolId'', PyStr ''P1''),
             (''applicationProfileId'', PyStr ''applicationProfile-7'')]"
         and ?e2.0 = "VcnsApiException ''vip refused''"]
  by (simp add: sample_vcns_def refusing_vcns_def sample_vip_def sample_db_def
      sample_vip_binding_def py_item_def py_get_def get_vcns_edge_pool_binding_def
      dict_literal_def location_id_def slice_from_def)

text \<open>
  A vip whose pool has no binding on the edge: the backend accepts the profile, the
  conversion of the vip then fails, and the operation ends after this single call without a
  backend call having failed.
\<close>

theorem create_vip_unbound_pool_single_call:
  "sample_vcns [] (CreateAppProfile ''edge-1'' (convert_app_profile (PyStr ''web'') PyNone)) =
     Inr ([(''location'', ''/api/4.0/edges/edge-1/appprofiles/applicationProfile-7'')], PyNone) \<and>
   create_vip sample_vcns ''edge-1''
     [(''id'', PyStr ''vip-2''), (''name'', PyStr ''web''), (''address'', PyStr ''10.0.0.6''),
      (''protocol'', PyStr ''HTTP''), (''protocol_port'', PyInt 80),
      (''pool_id'', PyStr ''pool-9'')]
     \<lparr>db = sample_db, calls = []\<rparr> =
     (Inl TypeError,
      \<lparr>db = sample_db,
       calls = [CreateAppProfile ''edge-1'' (convert_app_profile (PyStr ''web'') PyNone)]\<rparr>)"
  by (simp add: create_vip_def then_do_def pure_exc_def invoke_def py_item_def py_get_def
      header_item_def location_id_def slice_from_def convert_lb_vip_def
      get_vcns_edge_pool_binding_def sample_vcns_def sample_db_def Let_def)

text \<open>
  C2. For a vip that has a binding, \<open>delete_vip\<close> deletes the vip and then its
  application profile on the backend. If the first call raises, or the first succeeds and
  the second raises, the operation raises that very exception and the store is
  untouched; only when both calls return is the binding removed. Hence a changed store
  means that both backend calls succeeded.
\<close>

theorem delete_vip_binding_removed_after_both_deletes:
  assumes "get_vcns_edge_vip_binding (db s) i = Inr b"
  shows "(vcns (calls s) (DeleteVip (vip_edge_id b) (vip_vseid b)) = Inl e \<longrightarrow>
            delete_vip vcns i s =
              (Inl e, s\<lparr>calls := calls s @ [DeleteVip (vip_edge_id b) (vip_vseid b)]\<rparr>)) \<and>
         (vcns (calls s) (DeleteVip (vip_edge_id b) (vip_vseid b)) = Inr x \<and>
          vcns (calls s @ [DeleteVip (vip_edge_id b) (vip_vseid b)])
               (DeleteAppProfile (vip_edge_id b) (app_profileid b)) = Inl e \<longrightarrow>
            delete_vip vcns i s =
              (Inl e, s\<lparr>calls := calls s @ [DeleteVip (vip_edge_id b) (vip_vseid b),
                                           DeleteAppProfile (vip_edge_id b) (app_profileid b)]\<rparr>)) \<and>
         (vcns (calls s) (DeleteVip (vip_edge_id b) (vip_vseid b)) = Inr x \<and>
          vcns (calls s @ [DeleteVip (vip_edge_id b) (vip_vseid b)])
               (DeleteAppProfile (vip_edge_id b) (app_profileid b)) = Inr y \<longrightarrow>
            delete_vip vcns i s =
              (Inr (), s\<lparr>calls := calls s @ [DeleteVip (vip_edge_id b) (vip_vseid b),
                                           DeleteAppProfile (vip_edge_id b) (app_profileid b)],
                         db := delete_vcns_edge_vip_binding (db s) i\<rparr>)) \<and>
         (db (snd (delete_vip vcns i s)) \<noteq> db s \<longrightarrow>
            (\<exists>x y. vcns (calls s) (DeleteVip (vip_edge_id b) (vip_vseid b)) = Inr x \<and>
                   vcns (calls s @ [DeleteVip (vip_edge_id b) (vip_vseid b)])
                        (DeleteAppProfile (vip_edge_id b) (app_profileid b)) = Inr y))"
  using assms
  by (auto simp: delete_vip_def then_do_def invoke_def Let_def split: sum.splits prod.splits)

theorem delete_vip_binding_removed_after_both_deletes_witness:
  "delete_vip sample_vcns (PyStr ''vip-1'')
     \<lparr>db = add_vcns_edge_vip_binding sample_db sample_vip_binding, calls = []\<rparr> =
     (Inl (VcnsApiException ''profile is in use''),
      \<lparr>db = add_vcns_edge_vip_binding sample_db sample_vip_binding,
       calls = [DeleteVip ''edge-1'' ''virtualServer-3'',
                DeleteAppProfile ''edge-1'' ''applicationProfile-7'']\<rparr>)"
proof -
  have h: "get_vcns_edge_vip_binding
        (db \<lparr>db = add_vcns_edge_vip_binding sample_db sample_vip_binding, calls = []\<rparr>)
        (PyStr ''vip-1'') = Inr sample_vip_binding"
    by (simp add: get_vcns_edge_vip_binding_def add_vcns_edge_vip_binding_def sample_db_def
        sample_vip_binding_def)
  from delete_vip_binding_removed_after_both_deletes
         [OF h, where vcns = sample_vcns and x = "([], PyNone)"
            and e = "VcnsApiException ''profile is in use''"]
  show ?thesis
    by (simp add: sample_vcns_def sample_vip_binding_def)
qed

section \<open>Lookups without a binding\<close>

text \<open>
  C4. When the store holds no binding for the logical id (for a pool or a monitor: for
  the id on the given edge), \<open>get_vip\<close>, \<open>get_pool\<close> and
  \<open>get_health_monitor\<close> each raise the not-found error and leave the state,
  and with it the list of backend calls, exactly as it was: no backend call is issued.
  For the vip the error is the one the store raises on a miss; for the pool and the
  monitor it is raised by the driver's own test of the lookup.
\<close>

theorem get_without_binding_raises_not_found:
  "((\<forall>b\<in>set (vip_bindings (db s)). vip_id b \<noteq> i) \<longrightarrow>
      get_vip vcns i s = (Inl (VcnsNotFound ''router_service_binding''), s)) \<and>
   ((\<forall>b\<in>set (pool_bindings (db s)). \<not> (pool_id b = i \<and> pool_edge_id b = edge_id)) \<longrightarrow>
      get_pool vcns i edge_id s = (Inl (VcnsNotFound ''router_service_binding''), s)) \<and>
   ((\<forall>b\<in>set (monitor_bindings (db s)). \<not> (monitor_id b = i \<and> monitor_edge_id b = edge_id)) \<longrightarrow>
      get_health_monitor vcns i edge_id s = (Inl (VcnsNotFound ''router_service_binding''), s))"
proof (intro conjI impI)
  assume "\<forall>b\<in>set (vip_bindings (db s)). vip_id b \<noteq> i"
  then show "get_vip vcns i s = (Inl (VcnsNotFound ''router_service_binding''), s)"
    by (simp add: get_vip_def then_do_def vip_lookup_miss)
next
  assume "\<forall>b\<in>set (pool_bindings (db s)). \<not> (pool_id b = i \<and> pool_edge_id b = edge_id)"
  then show "get_pool vcns i edge_id s = (Inl (VcnsNotFound ''router_service_binding''), s)"
    by (simp add: get_pool_def pool_lookup_miss)
next
  assume "\<forall>b\<in>set (monitor_bindings (db s)). \<not> (monitor_id b = i \<and> monitor_edge_id b = edge_id)"
  then show "get_health_monitor vcns i edge_id s =
      (Inl (VcnsNotFound ''router_service_binding''), s)"
    by (simp add: get_health_monitor_def monitor_lookup_miss)
qed

theorem get_without_binding_raises_not_found_witness:
  "get_vip sample_vcns (PyStr ''vip-2'') \<lparr>db = sample_db, calls = []\<rparr> =
     (Inl (VcnsNotFound ''router_service_binding''), \<lparr>db = sample_db, calls = []\<rparr>) \<and>
   get_pool sample_vcns (PyStr ''pool-2'') ''edge-1'' \<lparr>db = sample_db, calls = []\<rparr> =
     (Inl (VcnsNotFound ''router_service_binding''), \<lparr>db = sample_db, calls = []\<rparr>) \<and>
   get_health_monitor sample_vcns (PyStr ''pool-2'') ''edge-1'' \<lparr>db = sample_db, calls = []\<rparr> =
     (Inl (VcnsNotFound ''router_service_binding''), \<lparr>db = sample_db, calls = []\<rparr>)"
  using get_without_binding_raises_not_found
    [of "\<lparr>db = sample_db, calls = []\<rparr>" "PyStr ''pool-2''" sample_vcns "''edge-1''"]
    get_without_binding_raises_not_found
    [of "\<lparr>db = sample_db, calls = []\<rparr>" "PyStr ''vip-2''" sample_vcns "''edge-1''"]
  by (simp add: sample_db_def)

section \<open>Conversions\<close>

text \<open>
  C8. A vip whose pool has a binding on the edge converts to the backend shape, with the
  address under \<open>ipAddress\<close>, the protocol port under \<open>port\<close> and the
  backend id of the pool under \<open>defaultPoolId\<close>; converting that shape back
  succeeds and gives the vip's address, protocol and protocol port again. The pool id is
  given back as well whenever the reverse lookup of the backend pool id answers the
  binding that the forward lookup of the vip's pool id found.
\<close>

theorem vip_round_trip:
  assumes "b0 \<in> set (pool_bindings d)"
    and "pool_id b0 = py_get vip ''pool_id''"
    and "pool_edge_id b0 = edge_id"
  shows "\<exists>b vse r.
     get_vcns_edge_pool_binding d (py_get vip ''pool_id'') edge_id = Some b \<and>
     convert_lb_vip d edge_id vip app = Inr vse \<and>
     map_of vse ''ipAddress'' = Some (py_get vip ''address'') \<and>
     map_of vse ''port'' = Some (py_get vip ''protocol_port'') \<and>
     map_of vse ''defaultPoolId'' = Some (PyStr (pool_vseid b)) \<and>
     restore_lb_vip d edge_id (PyDict vse) = Inr r \<and>
     map_of r ''address'' = Some (py_get vip ''address'') \<and>
     map_of r ''protocol'' = Some (py_get vip ''protocol'') \<and>
     map_of r ''protocol_port'' = Some (py_get vip ''protocol_port'') \<and>
     (get_vcns_edge_pool_binding_by_vseid d edge_id (PyStr (pool_vseid b)) = Inr b \<longrightarrow>
        map_of r ''pool_id'' = Some (py_get vip ''pool_id''))"
proof -
  from pool_lookup_hit [OF assms] obtain b
    where b: "get_vcns_edge_pool_binding d (py_get vip ''pool_id'') edge_id = Some b"
      and bp: "b \<in> set (pool_bindings d)" "pool_id b = py_get vip ''pool_id''"
        "pool_edge_id b = edge_id"
    by blast
  let ?vse = "dict_literal
            [(''name'', py_get vip ''name''),
             (''ipAddress'', py_get vip ''address''),
             (''protocol'', py_get vip ''protocol''),
             (''port'', py_get vip ''protocol_port''),
             (''defaultPoolId'', PyStr (pool_vseid b)),
             (''applicationProfileId'', PyStr app)]"
  have c: "convert_lb_vip d edge_id vip app = Inr ?vse"
    by (rule convert_lb_vip_bound [OF b])
  from bp have "find (\<lambda>x. pool_edge_id x = edge_id \<and> PyStr (pool_vseid x) = PyStr (pool_vseid b))
               (pool_bindings d) \<noteq> None"
    by (auto simp: find_None_iff)
  then obtain b'
    where b': "get_vcns_edge_pool_binding_by_vseid d edge_id (PyStr (pool_vseid b)) = Inr b'"
    by (auto simp: get_vcns_edge_pool_binding_by_vseid_def split: option.splits)
  let ?r = "dict_literal
         [(''name'', py_get vip ''name''),
          (''address'', py_get vip ''address''),
          (''protocol'', py_get vip ''protocol''),
          (''protocol_port'', py_get vip ''protocol_port''),
          (''pool_id'', pool_id b')]"
  have r: "restore_lb_vip d edge_id (PyDict ?vse) = Inr ?r"
    using b'
    by (simp add: restore_lb_vip_def py_subscript_def py_item_def pybind_def map_of_dict_literal)
  show ?thesis
    apply (rule exI [of _ b], rule exI [of _ ?vse], rule exI [of _ ?r])
    using b c r b' bp
    apply (simp add: map_of_dict_literal)
    done
qed

theorem vip_round_trip_witness:
  "convert_lb_vip sample_db ''edge-1'' sample_vip ''applicationProfile-7'' =
     Inr [(''name'', PyStr ''web''),
          (''ipAddress'', PyStr ''10.0.0.5''),
          (''protocol'', PyStr ''HTTP''),
          (''port'', PyInt 80),
          (''defaultPoolId'', PyStr ''P1''),
          (''applicationProfileId'', PyStr ''applicationProfile-7'')] \<and>
   restore_lb_vip sample_db ''edge-1''
     (PyDict [(''name'', PyStr ''web''),
              (''ipAddress'', PyStr ''10.0.0.5''),
              (''protocol'', PyStr ''HTTP''),
              (''port'', PyInt 80),
              (''defaultPoolId'', PyStr ''P1''),
              (''applicationProfileId'', PyStr ''applicationProfile-7'')]) =
     Inr [(''name'', PyStr ''web''),
          (''address'', PyStr ''10.0.0.5''),
          (''protocol'', PyStr ''HTTP''),
          (''protocol_port'', PyInt 80),
          (''pool_id'', PyStr ''pool-1'')]"
proof -
  have m: "\<lparr>pool_id = PyStr ''pool-1'', pool_vseid = ''P1'', pool_edge_id = ''edge-1''\<rparr>
             \<in> set (pool_bindings sample_db)"
    by (simp add: sample_db_def)
  have i: "pool_id \<lparr>pool_id = PyStr ''pool-1'', pool_vseid = ''P1'', pool_edge_id = ''edge-1''\<rparr> =
             py_get sample_vip ''pool_id''"
    by (simp add: sample_vip_def py_get_def)
  have e: "pool_edge_id \<lparr>pool_id = PyStr ''pool-1'', pool_vseid = ''P1'', pool_edge_id = ''edge-1''\<rparr> =
             ''edge-1''"
    by simp
  from vip_round_trip [OF m i e, of "''applicationProfile-7''"] show ?thesis
    by (simp add: convert_lb_vip_def restore_lb_vip_def pybind_def py_subscript_def py_item_def
        py_get_def dict_literal_def get_vcns_edge_pool_binding_def
        get_vcns_edge_pool_binding_by_vseid_def sample_db_def sample_vip_def Let_def)
qed

text \<open>
  C10. The type table sends the HTTPS constant to \<open>tcp\<close>, as it does the TCP
  constant, and a monitor whose type is the HTTPS constant converts to a backend monitor
  of type \<open>tcp\<close>.
\<close>

theorem https_monitor_becomes_tcp:
  "map_of (PROTOCOL_MAP c) (PROTOCOL_HTTPS c) = Some (PyStr ''tcp'') \<and>
   (PROTOCOL_TCP c \<noteq> PROTOCOL_HTTP c \<longrightarrow>
      map_of (PROTOCOL_MAP c) (PROTOCOL_TCP c) = Some (PyStr ''tcp'')) \<and>
   (py_get monitor ''type'' = PyStr (PROTOCOL_HTTPS c) \<longrightarrow>
      (\<exists>d. convert_lb_monitor c monitor = Inr d \<and> map_of d ''type'' = Some (PyStr ''tcp'')))"
  by (simp add: PROTOCOL_MAP_def map_of_dict_literal convert_lb_monitor_def dict_get_def
      pybind_def)

theorem https_monitor_becomes_tcp_witness:
  "convert_lb_monitor sample_constants
     [(''id'', PyStr ''m1''), (''type'', PyStr ''HTTPS''), (''delay'', PyInt 5),
      (''timeout'', PyInt 3), (''max_retries'', PyInt 2)] =
   Inr [(''type'', PyStr ''tcp''), (''interval'', PyInt 5), (''timeout'', PyInt 3),
        (''maxRetries'', PyInt 2), (''name'', PyStr ''m1'')]"
  using https_monitor_becomes_tcp
    [of sample_constants
        "[(''id'', PyStr ''m1''), (''type'', PyStr ''HTTPS''), (''delay'', PyInt 5),
          (''timeout'', PyInt 3), (''max_retries'', PyInt 2)]"]
  by (simp add: PROTOCOL_MAP_def convert_lb_monitor_def dict_get_def pybind_def
      dict_literal_def py_get_def sample_constants_def)

section \<open>Status handling of the REST client\<close>

lemma rd_status_kept:
  "get_response_dict env response ser = Inr rd \<Longrightarrow> rd_status rd = resp_status response"
  by (auto simp: get_response_dict_def Let_def pybind_def split: if_splits sum.splits)

lemma checked_outcome:
  assumes "get_connection cl = Inr ()" and "answers env req ser response rd"
  shows "pybind (get_connection cl) (\<lambda>_.
         pybind (send_request env req) (\<lambda>_.
         pybind (conn_getresponse env req) (\<lambda>response.
         pybind (get_response_dict env response ser) (\<lambda>resp_dict.
           check_status cl resp_dict)))) =
       (if is_proxy cl \<or> resp_status response < 400 then Inr (resp_status response, rd)
        else Inl ServiceUnavailable)"
  using assms rd_status_kept [of env response ser rd]
  by (auto simp: answers_def pybind_def send_request_def check_status_def Let_def
      is_valid_response_def)

lemma guarded_simps:
  "guarded (Inr x) = Inr x" "guarded (Inl ServiceUnavailable) = Inl ServiceUnavailable"
  by (simp_all add: guarded_def caught_def)

text \<open>
  C9, as the code has it. Let the connection be one of the two served protocols, and let
  it take the operation's request and answer a response from which the response
  dictionary is built. Then \<open>create_resource\<close>, \<open>update_resource\<close> and
  \<open>remove_resource\<close> return the status and the response dictionary when the
  client is a proxy or the status is below 400, and raise \<open>ServiceUnavailable\<close>
  otherwise: status 401 and every other status from 400 on raise this one error.
  \<open>retrieve_resource\<close> returns the response when the client is a proxy or the
  status is below 400, and raises \<open>ServiceUnavailable\<close> for a client that is not a
  proxy on status 401.
\<close>

theorem rest_status_handling:
  assumes "get_connection cl = Inr ()"
  shows
  "(request_body env (Some []) object_name object_data = Inr (body, ser) \<and>
    answers env (make_request cl ''POST'' resource_path body) ser response rd \<longrightarrow>
      create_resource env cl resource_path object_name object_data =
        (if is_proxy cl \<or> resp_status response < 400 then Inr (resp_status response, rd)
         else Inl ServiceUnavailable)) \<and>
   (request_body env None object_name object_data = Inr (body, ser) \<and>
    answers env (make_request cl ''PUT'' resource_path body) ser response rd \<longrightarrow>
      update_resource env cl resource_path object_name object_data =
        (if is_proxy cl \<or> resp_status response < 400 then Inr (resp_status response, rd)
         else Inl ServiceUnavailable)) \<and>
   (answers env (make_request cl ''DELETE'' resource_path []) parse_response response rd \<longrightarrow>
      remove_resource env cl resource_path parse_response =
        (if is_proxy cl \<or> resp_status response < 400 then Inr (resp_status response, rd)
         else Inl ServiceUnavailable)) \<and>
   (answers env (make_request cl ''GET'' resource_path []) parse_response response rd \<longrightarrow>
      (is_proxy cl \<or> resp_status response < 400 \<longrightarrow>
         retrieve_resource env cl resource_path parse_response = Inr (resp_status response, rd)) \<and>
      (\<not> is_proxy cl \<and> resp_status response = 401 \<longrightarrow>
         retrieve_resource env cl resource_path parse_response = Inl ServiceUnavailable))"
proof (intro conjI impI; (elim conjE)?)
  assume "request_body env (Some []) object_name object_data = Inr (body, ser)"
    and "answers env (make_request cl ''POST'' resource_path body) ser response rd"
  then show "create_resource env cl resource_path object_name object_data =
        (if is_proxy cl \<or> resp_status response < 400 then Inr (resp_status response, rd)
         else Inl ServiceUnavailable)"
    using checked_outcome
      [OF assms, of env "make_request cl ''POST'' resource_path body" ser response rd]
    by (simp add: create_resource_def pybind_def guarded_simps)
next
  assume "request_body env None object_name object_data = Inr (body, ser)"
    and "answers env (make_request cl ''PUT'' resource_path body) ser response rd"
  then show "update_resource env cl resource_path object_name object_data =
        (if is_proxy cl \<or> resp_status response < 400 then Inr (resp_status response, rd)
         else Inl ServiceUnavailable)"
    using checked_outcome
      [OF assms, of env "make_request cl ''PUT'' resource_path body" ser response rd]
    by (simp add: update_resource_def pybind_def guarded_simps)
next
  assume "answers env (make_request cl ''DELETE'' resource_path []) parse_response response rd"
  then show "remove_resource env cl resource_path parse_response =
        (if is_proxy cl \<or> resp_status response < 400 then Inr (resp_status response, rd)
         else Inl ServiceUnavailable)"
    using checked_outcome
      [OF assms, of env "make_request cl ''DELETE'' resource_path []" parse_response response rd]
    by (simp add: remove_resource_def)
next
  assume "answers env (make_request cl ''GET'' resource_path []) parse_response response rd"
    and "is_proxy cl \<or> resp_status response < 400"
  then show "retrieve_resource env cl resource_path parse_response =
      Inr (resp_status response, rd)"
    using assms rd_status_kept [of env response parse_response rd]
    by (auto simp: retrieve_resource_def answers_def pybind_def send_request_def Let_def
        guarded_simps)
next
  assume "answers env (make_request cl ''GET'' resource_path []) parse_response response rd"
    and "\<not> is_proxy cl" "resp_status response = 401"
  then show "retrieve_resource env cl resource_path parse_response = Inl ServiceUnavailable"
    using assms rd_status_kept [of env response parse_response rd]
    by (auto simp: retrieve_resource_def answers_def pybind_def send_request_def Let_def
        guarded_simps)
qed

theorem rest_status_handling_witness:
  "create_resource (sample_env 404) (sample_client False) ''lbvservers'' ''lbvserver''
     (PyStr ''<lbvserver/>'') = Inl ServiceUnavailable \<and>
   remove_resource (sample_env 401) (sample_client False) ''lbvservers/v1'' True =
     Inl ServiceUnavailable \<and>
   retrieve_resource (sample_env 200) (sample_client False) ''lbvservers/v1'' True =
     Inr (200, \<lparr>rd_status = 200, rd_body = [], rd_headers = [], rd_dict = None\<rparr>)"
proof -
  have h: "get_connection (sample_client False) = Inr ()"
    by (simp add: get_connection_def sample_client_def)
  have a: "answers (sample_env st) req ser
             \<lparr>resp_status = st, resp_body = [], resp_headers = []\<rparr>
             \<lparr>rd_status = st, rd_body = [], rd_headers = [], rd_dict = None\<rparr>" for st req ser
    by (simp add: answers_def sample_env_def get_response_dict_def Let_def)
  have b: "request_body (sample_env 404) (Some []) ''lbvserver'' (PyStr ''<lbvserver/>'') =
      Inr (''<lbvserver/>'', False)"
    by (simp add: request_body_def)
  from rest_status_handling [OF h, of "sample_env 404" "''lbvserver''" "PyStr ''<lbvserver/>''"
      "''<lbvserver/>''" False "''lbvservers''"
      "\<lparr>resp_status = 404, resp_body = [], resp_headers = []\<rparr>"
      "\<lparr>rd_status = 404, rd_body = [], rd_headers = [], rd_dict = None\<rparr>"]
    rest_status_handling [OF h, of "sample_env 401" "''lbvserver''" "PyStr ''<lbvserver/>''"
      "''<lbvserver/>''" False "''lbvservers/v1''"
      "\<lparr>resp_status = 401, resp_body = [], resp_headers = []\<rparr>"
      "\<lparr>rd_status = 401, rd_body = [], rd_headers = [], rd_dict = None\<rparr>" True]
    rest_status_handling [OF h, of "sample_env 200" "''lbvserver''" "PyStr ''<lbvserver/>''"
      "''<lbvserver/>''" False "''lbvservers/v1''"
      "\<lparr>resp_status = 200, resp_body = [], resp_headers = []\<rparr>"
      "\<lparr>rd_status = 200, rd_body = [], rd_headers = [], rd_dict = None\<rparr>" True]
  show ?thesis
    using a b by (simp add: sample_client_def)
qed

text \<open>
  A proxy client does not raise on an error status: a response with status 500 is
  returned.
\<close>

theorem proxy_client_returns_error_status:
  "create_resource (sample_env 500) (sample_client True) ''lbvservers'' ''lbvserver''
     (PyStr ''<lbvserver/>'') =
   Inr (500, \<lparr>rd_status = 500, rd_body = [], rd_headers = [], rd_dict = None\<rparr>)"
  by (simp add: create_resource_def request_body_def pybind_def guarded_def get_connection_def
      send_request_def get_response_dict_def check_status_def is_valid_response_def
      sample_env_def sample_client_def make_request_def Let_def)

section \<open>Port-not-found in the callbacks\<close>

text \<open>
  C6, as the code has it. For a port id that is not empty: when the port lookup raises
  \<open>PortNotFound\<close>, both \<open>unplug_vip_port\<close> and \<open>plug_vip_port\<close> return
  normally after that one call, without an update. When the lookup answers a port and
  the update raises \<open>PortNotFound\<close>, \<open>unplug_vip_port\<close> returns normally,
  while \<open>plug_vip_port\<close> raises that \<open>PortNotFound\<close>.
\<close>

theorem port_not_found_in_callbacks:
  assumes "truthy port_id"
  shows
   "(api (GetPort port_id) (world s) = (Inl (PortNotFound x), w1) \<longrightarrow>
       unplug_vip_port api port_id host s =
         (Inr (), \<lparr>trace = trace s @ [GetPort port_id], world = w1\<rparr>) \<and>
       plug_vip_port k api port_id host s =
         (Inr (), \<lparr>trace = trace s @ [GetPort port_id], world = w1\<rparr>)) \<and>
    (api (GetPort port_id) (world s) = (Inr (PyDict port), w1) \<and>
     api (UpdatePort port_id
            [(''port'', PyDict (AList.update ''device_id'' (PyStr [])
               (AList.update ''device_owner'' (PyStr [])
                 (AList.update ''admin_state_up'' (PyBool False) port))))]) w1 =
       (Inl (PortNotFound x), w2) \<longrightarrow>
       fst (unplug_vip_port api port_id host s) = Inr () \<and>
       world (snd (unplug_vip_port api port_id host s)) = w2) \<and>
    (api (GetPort port_id) (world s) = (Inr (PyDict port), w1) \<and>
     api (UpdatePort port_id
            [(''port'', PyDict (AList.update ''device_id'' (PyStr (host_uuid k host))
               (AList.update ''device_owner'' (PyStr (''neutron:'' @ LOADBALANCER k))
                 (AList.update ''admin_state_up'' (PyBool True) port))))]) w1 =
       (Inl (PortNotFound x), w2) \<longrightarrow>
       fst (plug_vip_port k api port_id host s) = Inl (PortNotFound x) \<and>
       world (snd (plug_vip_port k api port_id host s)) = w2)"
  using assms
  by (simp add: plug_vip_port_def unplug_vip_port_def call_api_def is_PortNotFound_def
      then_do_def pure_exc_def pybind_def py_setitem_def dict_literal_def)

theorem port_not_found_in_callbacks_witness:
  "unplug_vip_port vanishing_port_api (PyStr ''port-1'') (PyStr ''host-1'')
     \<lparr>trace = [], world = ()\<rparr> =
     (Inr (),
      \<lparr>trace = [GetPort (PyStr ''port-1''),
                UpdatePort (PyStr ''port-1'')
                  [(''port'', PyDict [(''id'', PyStr ''port-1''),
                                      (''admin_state_up'', PyBool False),
                                      (''device_owner'', PyStr []),
                                      (''device_id'', PyStr [])])]],
       world = ()\<rparr>) \<and>
   fst (plug_vip_port sample_agent_consts vanishing_port_api (PyStr ''port-1'') (PyStr ''host-1'')
     \<lparr>trace = [], world = ()\<rparr>) = Inl (PortNotFound ''port-1'')"
proof -
  have h: "truthy (PyStr ''port-1'')" by simp
  from port_not_found_in_callbacks
      [OF h, of vanishing_port_api "\<lparr>trace = [], world = ()\<rparr>" "''port-1''" "()"
        "PyStr ''host-1''" sample_agent_consts
        "[(''id'', PyStr ''port-1''), (''admin_state_up'', PyBool True)]" "()"]
  show ?thesis
    by (simp add: vanishing_port_api_def unplug_vip_port_def call_api_def is_PortNotFound_def
      then_do_def pure_exc_def pybind_def py_setitem_def dict_literal_def)
qed

text \<open>
  The plug operation swallows a missing port as well: on a platform without the port,
  the lookup raises \<open>PortNotFound\<close> and \<open>plug_vip_port\<close> returns normally.
\<close>

theorem plug_swallows_missing_port:
  "plug_vip_port sample_agent_consts platform_step (PyStr ''port-9'') (PyStr ''host-1'')
     \<lparr>trace = [], world = empty_platform\<rparr> =
     (Inr (), \<lparr>trace = [GetPort (PyStr ''port-9'')], world = empty_platform\<rparr>)"
  by (simp add: plug_vip_port_def call_api_def is_PortNotFound_def empty_platform_def)

section \<open>Traces of the agent driver\<close>















section \<open>The SNAT port follows the pools of its subnet\<close>














































section \<open>Order of operations in a pool update\<close>







end
